theory Spec2Isabelle
  imports Main "HOL-Library.AList"
begin

section \<open>Values, messages and the engine interface\<close>

text \<open>
  The declarations of \<^verbatim>\<open>src/types.ts\<close> are not among the sources; every shape below is
  read off the places where \<^verbatim>\<open>processor.ts\<close> and \<^verbatim>\<open>client.ts\<close> build or inspect the value.

  JavaScript values that travel in messages: the rows of a result, the bound parameters,
  the arguments of a user function. \<open>Undefined\<close> is what an out-of-range index yields.
\<close>

datatype jsval = Undefined | Null | Num int | Str string | Arr "jsval list"

text \<open>A thrown value: an \<^verbatim>\<open>Error\<close> object, identified by its message, or a \<^verbatim>\<open>TypeError\<close>
  raised by the JavaScript runtime (the text of its message depends on the engine).\<close>

datatype error = Error string | TypeError

record Statement =
  sql :: string
  params :: "jsval list"

record ProcessorConfig =
  databasePath :: "string option"
  storage :: "string option"
  create :: "bool option"
  readonly :: "bool option"
  verbose :: "bool option"

text \<open>
  Input messages. A query key is a string (\<^verbatim>\<open>nanoid()\<close>); the config message has none.
  The query method is kept as the string the code switches on.
\<close>

datatype InputMessage =
    ConfigMessage ProcessorConfig
  | QueryMessage string string "jsval list" string
  | TransactionMessage string "Statement list"
  | FunctionMessage string string
  | DestroyMessage string

text \<open>Output messages; only the error message may carry the key \<^verbatim>\<open>null\<close> (\<open>None\<close>).\<close>

datatype OutputMessage =
    DataMessage string jsval "string list"
  | SuccessMessage string
  | ErrorMessage "string option" error
  | CallbackMessage string "jsval list"

text \<open>
  The SQLite module is an external collaborator and a parameter of the model. A connection
  is a value of type \<open>'db\<close>: the state of the database behind the handle. Every operation
  that can throw returns a sum, \<open>Inl\<close> the thrown error.

  \<^item> \<open>db_exec eng q ps d\<close> is \<^verbatim>\<open>db.exec({sql: q, bind: ps, ...})\<close>: the outcome (the result
    rows and the column names, or the error thrown), the invocations of registered user
    functions that the execution made, in order, and the database afterwards.
  \<^item> \<open>db_transaction eng f d\<close> is \<^verbatim>\<open>db.transaction(f)\<close>, the atomic-execution primitive,
    applied to a callback \<open>f\<close>.
  \<^item> \<open>db_createFunction eng n d\<close> is \<^verbatim>\<open>db.createFunction(n, relay, {arity: -1})\<close>.
\<close>

type_synonym calls = "(string \<times> jsval list) list"

record 'db Sqlite3 =
  has_opfs :: bool
  OpfsDb :: "string \<Rightarrow> string \<Rightarrow> error + 'db"
  DB :: "string option \<Rightarrow> string \<Rightarrow> error + 'db"
  JsStorageDb :: "string \<Rightarrow> error + 'db"
  db_exec :: "string \<Rightarrow> jsval list \<Rightarrow> 'db \<Rightarrow> (error + jsval list list \<times> string list) \<times> calls \<times> 'db"
  db_transaction :: "('db \<Rightarrow> (error + unit) \<times> calls \<times> 'db) \<Rightarrow> 'db \<Rightarrow> (error + unit) \<times> calls \<times> 'db"
  db_createFunction :: "string \<Rightarrow> 'db \<Rightarrow> error + 'db"

section \<open>The processor (processor.ts)\<close>

text \<open>A registry entry: \<^verbatim>\<open>{type: 'callback', name, handler}\<close>, the handler being the relay
  that emits a callback message under that name.\<close>

datatype UserFunction = CallbackUserFunction string

fun fn_name :: "UserFunction \<Rightarrow> string" where
  "fn_name (CallbackUserFunction n) = n"

text \<open>The locals an activation of \<^verbatim>\<open>init\<close> has destructured from the config before
  it reaches its \<^verbatim>\<open>try\<close> block.\<close>

record InitFrame =
  f_databasePath :: "string option"
  f_storage :: "string option"
  f_flags :: string

text \<open>
  The fields of the class, and three records of its effects on the outside:
  \<open>emitted\<close>, the messages handed to the \<^verbatim>\<open>onmessage\<close> listener, in order (the listener is
  a sink: it returns normally); \<open>closed\<close>, the connections on which \<^verbatim>\<open>close()\<close> was
  called, in order; \<open>suspended\<close>, the activations of \<^verbatim>\<open>init\<close> that wait at
  \<^verbatim>\<open>await sqlite3InitModule()\<close>. JavaScript maps are association lists in insertion order.
  The two \<^verbatim>\<open>console.warn\<close> calls of \<^verbatim>\<open>init\<close> are left out.
\<close>

record 'db SQLocalProcessor =
  sqlite3 :: bool
  db :: "'db option"
  config :: ProcessorConfig
  queuedMessages :: "InputMessage list"
  userFunctions :: "(string \<times> UserFunction) list"
  onmessage :: bool
  emitted :: "OutputMessage list"
  closed :: "'db list"
  suspended :: "InitFrame list"

definition truthy :: "string option \<Rightarrow> bool" where
  "truthy v = (case v of None \<Rightarrow> False | Some t \<Rightarrow> t \<noteq> [])"

definition configValid :: "ProcessorConfig \<Rightarrow> bool" where
  "configValid c =
     (truthy (databasePath c) \<or>
      (case storage c of None \<Rightarrow> [] | Some t \<Rightarrow> t) \<in> {''local'', ''session''})"

definition flags_of :: "ProcessorConfig \<Rightarrow> string" where
  "flags_of c =
     (if create c = None \<or> create c = Some True then ''c'' else []) @
     (if readonly c = Some True then ''r'' else ''w'') @
     (if verbose c = Some True then ''t'' else [])"

definition frame_of :: "ProcessorConfig \<Rightarrow> InitFrame" where
  "frame_of c = \<lparr>f_databasePath = databasePath c, f_storage = storage c, f_flags = flags_of c\<rparr>"

definition emitMessage :: "OutputMessage \<Rightarrow> 'db SQLocalProcessor \<Rightarrow> 'db SQLocalProcessor" where
  "emitMessage m s = (if onmessage s then s\<lparr>emitted := emitted s @ [m]\<rparr> else s)"

text \<open>\<^verbatim>\<open>this.db?.close(); this.db = undefined\<close>\<close>

definition closeDb :: "'db SQLocalProcessor \<Rightarrow> 'db SQLocalProcessor" where
  "closeDb s =
     (case db s of None \<Rightarrow> s\<lparr>db := None\<rparr>
      | Some d \<Rightarrow> s\<lparr>db := None, closed := closed s @ [d]\<rparr>)"

text \<open>The constructor chosen by the three-way branch of \<^verbatim>\<open>init\<close>.\<close>

definition openDatabase :: "'db Sqlite3 \<Rightarrow> InitFrame \<Rightarrow> error + 'db" where
  "openDatabase eng fr =
     (if (\<not> truthy (f_storage fr) \<or> f_storage fr = Some ''opfs'') \<and> truthy (f_databasePath fr)
      then (case f_databasePath fr of
              None \<Rightarrow> DB eng None (f_flags fr)
            | Some p \<Rightarrow> if has_opfs eng then OpfsDb eng p (f_flags fr)
                        else DB eng (Some p) (f_flags fr))
      else if f_storage fr = Some ''local'' then JsStorageDb eng ''local''
      else if f_storage fr = Some ''session'' then JsStorageDb eng ''session''
      else DB eng (f_databasePath fr) (f_flags fr))"

text \<open>The \<^verbatim>\<open>catch\<close> block of \<^verbatim>\<open>init\<close>.\<close>

definition initCatch :: "error \<Rightarrow> 'db SQLocalProcessor \<Rightarrow> 'db SQLocalProcessor" where
  "initCatch e s = closeDb (emitMessage (ErrorMessage None e) s)"

text \<open>\<^verbatim>\<open>initUserFunction\<close>: the result is the error thrown by the engine, if any.\<close>

definition initUserFunction ::
  "'db Sqlite3 \<Rightarrow> UserFunction \<Rightarrow> 'db SQLocalProcessor \<Rightarrow> error option \<times> 'db SQLocalProcessor" where
  "initUserFunction eng f s =
     (case db s of None \<Rightarrow> (None, s)
      | Some d \<Rightarrow> (case db_createFunction eng (fn_name f) d of
                    Inl e \<Rightarrow> (Some e, s)
                  | Inr d' \<Rightarrow> (None, s\<lparr>db := Some d'\<rparr>)))"

text \<open>\<^verbatim>\<open>this.userFunctions.forEach(this.initUserFunction)\<close>: in insertion order, left at
  the first throw.\<close>

fun forEach_initUserFunction ::
  "'db Sqlite3 \<Rightarrow> (string \<times> UserFunction) list \<Rightarrow> 'db SQLocalProcessor \<Rightarrow>
     error option \<times> 'db SQLocalProcessor" where
  "forEach_initUserFunction eng [] s = (None, s)"
| "forEach_initUserFunction eng (kf # fs) s =
     (case initUserFunction eng (snd kf) s of
        (Some e, s') \<Rightarrow> (Some e, s')
      | (None, s') \<Rightarrow> forEach_initUserFunction eng fs s')"

text \<open>The relay handlers that the engine invoked while it executed: each emits a
  callback message.\<close>

definition relay :: "calls \<Rightarrow> 'db SQLocalProcessor \<Rightarrow> 'db SQLocalProcessor" where
  "relay cs s = foldl (\<lambda>t c. emitMessage (CallbackMessage (fst c) (snd c)) t) s cs"

text \<open>The callback that \<^verbatim>\<open>exec\<close> passes to \<^verbatim>\<open>db.transaction\<close>: the \<^verbatim>\<open>for\<close> loop over the
  statements, left at the first throw.\<close>

fun executeStatements ::
  "'db Sqlite3 \<Rightarrow> Statement list \<Rightarrow> 'db \<Rightarrow> (error + unit) \<times> calls \<times> 'db" where
  "executeStatements eng [] d = (Inr (), [], d)"
| "executeStatements eng (st # rest) d =
     (case db_exec eng (sql st) (params st) d of
        (Inl e, c, d1) \<Rightarrow> (Inl e, c, d1)
      | (Inr _, c, d1) \<Rightarrow>
          (case executeStatements eng rest d1 of (r, c', d2) \<Rightarrow> (r, c @ c', d2)))"

text \<open>The shaping of the result rows by the method; \<open>rows[0]\<close> of an empty array is
  undefined.\<close>

definition shapeRows :: "string \<Rightarrow> jsval list list \<Rightarrow> jsval" where
  "shapeRows method rows =
     (if method = ''run'' then Arr []
      else if method = ''get'' then (case rows of [] \<Rightarrow> Undefined | r # _ \<Rightarrow> Arr r)
      else Arr (map Arr rows))"

text \<open>\<^verbatim>\<open>exec\<close>. Its parameter type admits the query and the transaction message only.\<close>

definition exec :: "'db Sqlite3 \<Rightarrow> InputMessage \<Rightarrow> 'db SQLocalProcessor \<Rightarrow> 'db SQLocalProcessor" where
  "exec eng m s =
     (case db s of None \<Rightarrow> s
      | Some d \<Rightarrow>
         (case m of
            QueryMessage k q ps method \<Rightarrow>
              (case db_exec eng q ps d of
                 (Inl e, c, d') \<Rightarrow> emitMessage (ErrorMessage (Some k) e) (relay c (s\<lparr>db := Some d'\<rparr>))
               | (Inr (rows, cols), c, d') \<Rightarrow>
                   emitMessage (DataMessage k (shapeRows method rows) cols) (relay c (s\<lparr>db := Some d'\<rparr>)))
          | TransactionMessage k stmts \<Rightarrow>
              (case db_transaction eng (executeStatements eng stmts) d of
                 (Inl e, c, d') \<Rightarrow> emitMessage (ErrorMessage (Some k) e) (relay c (s\<lparr>db := Some d'\<rparr>))
               | (Inr _, c, d') \<Rightarrow> emitMessage (DataMessage k (Arr []) []) (relay c (s\<lparr>db := Some d'\<rparr>)))
          | _ \<Rightarrow> s))"

definition duplicate_error :: "string \<Rightarrow> error" where
  "duplicate_error n =
     Error (''A user-defined function with the name \"'' @ n @
            ''\" has already been created for this SQLocal instance.'')"

definition createCallbackFunction ::
  "'db Sqlite3 \<Rightarrow> string \<Rightarrow> string \<Rightarrow> 'db SQLocalProcessor \<Rightarrow> 'db SQLocalProcessor" where
  "createCallbackFunction eng k n s =
     (if map_of (userFunctions s) n \<noteq> None
      then emitMessage (ErrorMessage (Some k) (duplicate_error n)) s
      else (case initUserFunction eng (CallbackUserFunction n) s of
              (Some e, s') \<Rightarrow> emitMessage (ErrorMessage (Some k) e) s'
            | (None, s') \<Rightarrow>
                emitMessage (SuccessMessage k)
                  (s'\<lparr>userFunctions := AList.update n (CallbackUserFunction n) (userFunctions s')\<rparr>)))"

definition destroy :: "string \<Rightarrow> 'db SQLocalProcessor \<Rightarrow> 'db SQLocalProcessor" where
  "destroy k s = emitMessage (SuccessMessage k) (closeDb s)"

fun is_config :: "InputMessage \<Rightarrow> bool" where
  "is_config (ConfigMessage _) = True"
| "is_config _ = False"

text \<open>
  \<^verbatim>\<open>postMessage\<close>, \<^verbatim>\<open>editConfig\<close>, \<^verbatim>\<open>init\<close> and \<^verbatim>\<open>flushQueue\<close> call one another, and the loop of
  \<^verbatim>\<open>flushQueue\<close> need not end; they are one partial function over the activation that
  runs, \<open>None\<close> meaning that the call never returns.

  \<^item> \<open>PostMessage m\<close> is \<^verbatim>\<open>postMessage(m)\<close>; its config branch is \<^verbatim>\<open>editConfig\<close>, which stores
    the config and calls \<^verbatim>\<open>init\<close>.
  \<^item> \<open>FlushQueue\<close> is \<^verbatim>\<open>flushQueue\<close>: each turn of its loop shifts the first message off the
    queue and posts it.
  \<^item> \<open>Init\<close> is \<^verbatim>\<open>init\<close> up to its \<^verbatim>\<open>try\<close>: where the module is not loaded yet the activation
    suspends at the \<^verbatim>\<open>await\<close>, and the call returns.
  \<^item> \<open>InitResume fr r\<close> is the rest of a suspended activation, \<open>r\<close> the outcome of
    \<^verbatim>\<open>sqlite3InitModule()\<close>.
  \<^item> \<open>InitConnect fr\<close> is \<^verbatim>\<open>init\<close> from \<^verbatim>\<open>if (this.db)\<close> on. An error thrown while the user
    functions are re-attached is not caught: the activation ends there.
\<close>

datatype activation =
    PostMessage InputMessage
  | Init
  | InitResume InitFrame "error + unit"
  | InitConnect InitFrame
  | FlushQueue

partial_function (option) run ::
  "'db Sqlite3 \<Rightarrow> activation \<Rightarrow> 'db SQLocalProcessor \<Rightarrow> 'db SQLocalProcessor option" where
  "run eng a s =
     (case a of
        PostMessage m \<Rightarrow>
          (if db s = None \<and> \<not> is_config m
           then Some (s\<lparr>queuedMessages := queuedMessages s @ [m]\<rparr>)
           else (case m of
                   ConfigMessage c \<Rightarrow> run eng Init (s\<lparr>config := c\<rparr>)
                 | QueryMessage k q ps method \<Rightarrow> Some (exec eng m s)
                 | TransactionMessage k stmts \<Rightarrow> Some (exec eng m s)
                 | FunctionMessage k n \<Rightarrow> Some (createCallbackFunction eng k n s)
                 | DestroyMessage k \<Rightarrow> Some (destroy k s)))
      | Init \<Rightarrow>
          (if \<not> configValid (config s) then Some s
           else if \<not> sqlite3 s
             then Some (s\<lparr>suspended := suspended s @ [frame_of (config s)]\<rparr>)
             else run eng (InitConnect (frame_of (config s))) s)
      | InitResume fr r \<Rightarrow>
          (case r of
             Inl e \<Rightarrow> Some (initCatch e s)
           | Inr _ \<Rightarrow> run eng (InitConnect fr) (s\<lparr>sqlite3 := True\<rparr>))
      | InitConnect fr \<Rightarrow>
          (case openDatabase eng fr of
             Inl e \<Rightarrow> Some (initCatch e (closeDb s))
           | Inr d \<Rightarrow>
               (case forEach_initUserFunction eng (userFunctions s) ((closeDb s)\<lparr>db := Some d\<rparr>) of
                  (Some e, s') \<Rightarrow> Some s'
                | (None, s') \<Rightarrow> run eng FlushQueue s'))
      | FlushQueue \<Rightarrow>
          (case queuedMessages s of
             [] \<Rightarrow> Some s
           | m # ms \<Rightarrow>
               Option.bind (run eng (PostMessage m) (s\<lparr>queuedMessages := ms\<rparr>))
                 (\<lambda>s'. run eng FlushQueue s')))"

definition postMessage ::
  "'db Sqlite3 \<Rightarrow> InputMessage \<Rightarrow> 'db SQLocalProcessor \<Rightarrow> 'db SQLocalProcessor option" where
  "postMessage eng m s = run eng (PostMessage m) s"

definition flushQueue :: "'db Sqlite3 \<Rightarrow> 'db SQLocalProcessor \<Rightarrow> 'db SQLocalProcessor option" where
  "flushQueue eng s = run eng FlushQueue s"

definition init :: "'db Sqlite3 \<Rightarrow> 'db SQLocalProcessor \<Rightarrow> 'db SQLocalProcessor option" where
  "init eng s = run eng Init s"

text \<open>The promise of \<^verbatim>\<open>sqlite3InitModule()\<close> settles with \<open>r\<close>: the activation of \<^verbatim>\<open>init\<close>
  that has waited longest goes on.\<close>

definition resumeInit ::
  "'db Sqlite3 \<Rightarrow> error + unit \<Rightarrow> 'db SQLocalProcessor \<Rightarrow> 'db SQLocalProcessor option" where
  "resumeInit eng r s =
     (case suspended s of
        [] \<Rightarrow> Some s
      | fr # frs \<Rightarrow> run eng (InitResume fr r) (s\<lparr>suspended := frs\<rparr>))"

text \<open>Messages that arrive one after the other.\<close>

fun postMessages ::
  "'db Sqlite3 \<Rightarrow> InputMessage list \<Rightarrow> 'db SQLocalProcessor \<Rightarrow> 'db SQLocalProcessor option" where
  "postMessages eng [] s = Some s"
| "postMessages eng (m # ms) s = Option.bind (postMessage eng m s) (postMessages eng ms)"

text \<open>The events of a processor: a message arrives, or the promise of
  \<^verbatim>\<open>sqlite3InitModule()\<close> settles and the activation of \<^verbatim>\<open>init\<close> that awaits it goes on.\<close>

datatype ProcessorEvent = Arrives InputMessage | ModuleSettles "error + unit"

fun processorStep ::
  "'db Sqlite3 \<Rightarrow> ProcessorEvent \<Rightarrow> 'db SQLocalProcessor \<Rightarrow> 'db SQLocalProcessor option" where
  "processorStep eng (Arrives m) s = postMessage eng m s"
| "processorStep eng (ModuleSettles r) s = resumeInit eng r s"

fun processorSteps ::
  "'db Sqlite3 \<Rightarrow> ProcessorEvent list \<Rightarrow> 'db SQLocalProcessor \<Rightarrow> 'db SQLocalProcessor option" where
  "processorSteps eng [] s = Some s"
| "processorSteps eng (ev # evs) s = Option.bind (processorStep eng ev s) (processorSteps eng evs)"

definition emptyConfig :: ProcessorConfig where
  "emptyConfig = \<lparr>databasePath = None, storage = None, create = None, readonly = None,
                  verbose = None\<rparr>"

text \<open>The constructor: the field initialisers, then \<^verbatim>\<open>this.init()\<close>, which returns at once
  on the empty config.\<close>

definition new_SQLocalProcessor :: "'db SQLocalProcessor" where
  "new_SQLocalProcessor =
     \<lparr>sqlite3 = False, db = None, config = emptyConfig, queuedMessages = [],
      userFunctions = [], onmessage = False, emitted = [], closed = [], suspended = []\<rparr>"

section \<open>The client (client.ts)\<close>

text \<open>
  What a pending request waits for: the two callbacks stored under a query key belong to
  the promise that one of the methods awaits, and settling it runs the rest of that
  method. A user callback is an opaque function of the caller, identified by a number.
\<close>

datatype Awaiting =
    AwaitExec
  | AwaitSql
  | AwaitTransaction
  | AwaitFunction string nat
  | AwaitDestroy

datatype Settlement = Resolved OutputMessage | Rejected error

text \<open>
  The prototype of a plain object: \<^verbatim>\<open>Object.prototype\<close>, as \<^verbatim>\<open>{}\<close> creates it, or what an
  assignment to \<^verbatim>\<open>__proto__\<close> has made it. A plain object is its own properties and its
  prototype; the order in which the properties are enumerated is not part of the model.
\<close>

datatype Prototype = ObjectPrototype | NullPrototype | ArrayPrototype "jsval list"

datatype JsObject = JsObject "string \<rightharpoonup> jsval" Prototype

text \<open>What the promise returned by a method settles with.\<close>

datatype Outcome =
    ReturnedData jsval "string list"
  | ReturnedObjects "JsObject list"
  | ReturnedVoid
  | Failed error

text \<open>\<^verbatim>\<open>processor: SQLocalProcessor | Worker\<close>. Of a worker the model keeps the messages
  posted to it and whether the client still listens to it (until \<^verbatim>\<open>removeEventListener\<close>
  and \<^verbatim>\<open>terminate\<close>).\<close>

datatype 'db Processor =
    Worker "InputMessage list" bool
  | InProcess "'db SQLocalProcessor"

text \<open>
  The fields of the class (\<^verbatim>\<open>databasePath\<close> serves the two file methods only, which are
  left out), and three records of its effects: \<open>jobs\<close>, the reactions of settled promises
  that have not run yet; \<open>completed\<close>, the outcome of every awaited method, under the key
  of its request; \<open>invoked\<close>, the calls of user callbacks.
\<close>

record 'db SQLocal =
  processor :: "'db Processor"
  isDestroyed :: bool
  userCallbacks :: "(string \<times> nat) list"
  queriesInProgress :: "(string \<times> Awaiting) list"
  jobs :: "(string \<times> Awaiting \<times> Settlement) list"
  completed :: "(string \<times> Outcome) list"
  invoked :: "(nat \<times> jsval list) list"

definition destroyed_error :: error where
  "destroyed_error =
     Error (''This SQLocal client has been destroyed. You will need to initialize '' @
            ''a new client in order to make further queries.'')"

text \<open>\<^verbatim>\<open>processMessageEvent\<close>; the first component of the result is the error it throws.
  An empty key is falsy, as \<^verbatim>\<open>null\<close> is.\<close>

definition route ::
  "string option \<Rightarrow> Settlement \<Rightarrow> error option \<Rightarrow> 'db SQLocal \<Rightarrow> error option \<times> 'db SQLocal" where
  "route key st unrouted c =
     (case key of
        None \<Rightarrow> (unrouted, c)
      | Some k \<Rightarrow>
          (if k \<noteq> [] \<and> map_of (queriesInProgress c) k \<noteq> None
           then (case map_of (queriesInProgress c) k of
                   None \<Rightarrow> (unrouted, c)
                 | Some aw \<Rightarrow>
                     (None, c\<lparr>jobs := jobs c @ [(k, aw, st)],
                              queriesInProgress := AList.delete k (queriesInProgress c)\<rparr>))
           else (unrouted, c)))"

fun processMessageEvent :: "OutputMessage \<Rightarrow> 'db SQLocal \<Rightarrow> error option \<times> 'db SQLocal" where
  "processMessageEvent (SuccessMessage k) c = route (Some k) (Resolved (SuccessMessage k)) None c"
| "processMessageEvent (DataMessage k rows cols) c =
     route (Some k) (Resolved (DataMessage k rows cols)) None c"
| "processMessageEvent (ErrorMessage key e) c = route key (Rejected e) (Some e) c"
| "processMessageEvent (CallbackMessage n args) c =
     (case map_of (userCallbacks c) n of
        None \<Rightarrow> (None, c)
      | Some h \<Rightarrow> (None, c\<lparr>invoked := invoked c @ [(h, args)]\<rparr>))"

text \<open>\<^verbatim>\<open>convertSqlTemplate\<close>: \<^verbatim>\<open>queryTemplate.join('?')\<close>.\<close>

fun join :: "string \<Rightarrow> string list \<Rightarrow> string" where
  "join sep [] = []"
| "join sep [x] = x"
| "join sep (x # y # ys) = x @ sep @ join sep (y # ys)"

definition convertSqlTemplate :: "string list \<Rightarrow> jsval list \<Rightarrow> Statement" where
  "convertSqlTemplate queryTemplate ps = \<lparr>sql = join ''?'' queryTemplate, params = ps\<rparr>"

text \<open>\<^verbatim>\<open>row[columnIndex]\<close> on whatever value the row is: an element of an array, a
  character of a string, undefined on a number, a \<^verbatim>\<open>TypeError\<close> on undefined and on null.\<close>

definition js_index :: "jsval \<Rightarrow> nat \<Rightarrow> error + jsval" where
  "js_index v i =
     (case v of
        Arr xs \<Rightarrow> Inr (if i < length xs then xs ! i else Undefined)
      | Str t \<Rightarrow> Inr (if i < length t then Str [t ! i] else Undefined)
      | Num _ \<Rightarrow> Inr Undefined
      | _ \<Rightarrow> Inl TypeError)"

text \<open>
  \<^verbatim>\<open>rowObj[column] = v\<close>. On an object that inherits from \<^verbatim>\<open>Object.prototype\<close> (directly, or
  through an array) the key \<^verbatim>\<open>__proto__\<close> is the accessor of the prototype: an array or
  null becomes the prototype, any other value is ignored, and no own property is
  created. Every other key, and \<^verbatim>\<open>__proto__\<close> itself once the prototype is null, becomes
  an own property, or overwrites the one of that name.
\<close>

fun assignProperty :: "string \<Rightarrow> jsval \<Rightarrow> JsObject \<Rightarrow> JsObject" where
  "assignProperty col v (JsObject props proto) =
     (if col = ''__proto__'' \<and> proto \<noteq> NullPrototype
      then (case v of
              Null \<Rightarrow> JsObject props NullPrototype
            | Arr xs \<Rightarrow> JsObject props (ArrayPrototype xs)
            | _ \<Rightarrow> JsObject props proto)
      else JsObject (props(col \<mapsto> v)) proto)"

text \<open>The \<^verbatim>\<open>columns.forEach\<close> of one row, from the column at index \<open>i\<close> on.\<close>

fun rowObject :: "jsval \<Rightarrow> string list \<Rightarrow> nat \<Rightarrow> JsObject \<Rightarrow> error + JsObject" where
  "rowObject row [] i obj = Inr obj"
| "rowObject row (col # cols) i obj =
     (case js_index row i of
        Inl e \<Rightarrow> Inl e
      | Inr v \<Rightarrow> rowObject row cols (Suc i) (assignProperty col v obj))"

fun rowObjects :: "jsval list \<Rightarrow> string list \<Rightarrow> error + JsObject list" where
  "rowObjects [] cols = Inr []"
| "rowObjects (row # rows) cols =
     (case rowObject row cols 0 (JsObject Map.empty ObjectPrototype) of
        Inl e \<Rightarrow> Inl e
      | Inr obj \<Rightarrow> (case rowObjects rows cols of Inl e \<Rightarrow> Inl e | Inr objs \<Rightarrow> Inr (obj # objs)))"

text \<open>\<^verbatim>\<open>convertRowsToObjects\<close>: \<^verbatim>\<open>rows.map\<close> is a function on arrays only; on any other value
  the call is a \<^verbatim>\<open>TypeError\<close>.\<close>

definition convertRowsToObjects :: "jsval \<Rightarrow> string list \<Rightarrow> error + JsObject list" where
  "convertRowsToObjects rows cols =
     (case rows of
        Arr xs \<Rightarrow> rowObjects xs cols
      | _ \<Rightarrow> Inl TypeError)"

text \<open>The rest of \<^verbatim>\<open>exec\<close> after its \<^verbatim>\<open>await\<close>: the empty default, overwritten from a
  data message.\<close>

definition dataOf :: "OutputMessage \<Rightarrow> jsval \<times> string list" where
  "dataOf m = (case m of DataMessage k rows cols \<Rightarrow> (rows, cols) | _ \<Rightarrow> (Arr [], []))"

text \<open>The rest of \<^verbatim>\<open>destroy\<close> after its \<^verbatim>\<open>await\<close>.\<close>

definition afterDestroy :: "'db SQLocal \<Rightarrow> 'db SQLocal" where
  "afterDestroy c =
     c\<lparr>processor := (case processor c of Worker posted l \<Rightarrow> Worker posted False | InProcess p \<Rightarrow> InProcess p),
       queriesInProgress := [],
       userCallbacks := [],
       isDestroyed := True\<rparr>"

text \<open>The reaction of a settled promise: the rest of the method that awaited it.\<close>

definition complete :: "string \<Rightarrow> Outcome \<Rightarrow> 'db SQLocal \<Rightarrow> 'db SQLocal" where
  "complete k out c = c\<lparr>completed := completed c @ [(k, out)]\<rparr>"

fun continue :: "string \<Rightarrow> Awaiting \<Rightarrow> Settlement \<Rightarrow> 'db SQLocal \<Rightarrow> 'db SQLocal" where
  "continue k aw (Rejected e) c = complete k (Failed e) c"
| "continue k AwaitExec (Resolved m) c = complete k (ReturnedData (fst (dataOf m)) (snd (dataOf m))) c"
| "continue k AwaitSql (Resolved m) c =
     (case convertRowsToObjects (fst (dataOf m)) (snd (dataOf m)) of
        Inl e \<Rightarrow> complete k (Failed e) c
      | Inr objs \<Rightarrow> complete k (ReturnedObjects objs) c)"
| "continue k AwaitTransaction (Resolved m) c = complete k ReturnedVoid c"
| "continue k (AwaitFunction n h) (Resolved m) c =
     complete k ReturnedVoid (c\<lparr>userCallbacks := AList.update n h (userCallbacks c)\<rparr>)"
| "continue k AwaitDestroy (Resolved m) c = complete k ReturnedVoid (afterDestroy c)"

fun runJobs :: "(string \<times> Awaiting \<times> Settlement) list \<Rightarrow> 'db SQLocal \<Rightarrow> 'db SQLocal" where
  "runJobs [] c = c"
| "runJobs ((k, aw, st) # js) c = runJobs js (continue k aw st c)"

definition drainJobs :: "'db SQLocal \<Rightarrow> 'db SQLocal" where
  "drainJobs c = runJobs (jobs c) (c\<lparr>jobs := []\<rparr>)"

text \<open>The listener runs on the messages in turn; a throw ends the run.\<close>

fun deliver :: "OutputMessage list \<Rightarrow> 'db SQLocal \<Rightarrow> error option \<times> 'db SQLocal" where
  "deliver [] c = (None, c)"
| "deliver (m # ms) c =
     (case processMessageEvent m c of
        (Some e, c') \<Rightarrow> (Some e, c')
      | (None, c') \<Rightarrow> deliver ms c')"

text \<open>
  \<^verbatim>\<open>this.processor.postMessage(message)\<close>. A worker receives the message later, on its own
  thread. The in-process processor handles it within the call, and its listener is
  \<^verbatim>\<open>processMessageEvent\<close>, run at each emission, also within the call. The client posts
  the config message from its constructor (the module is not loaded then, \<^verbatim>\<open>init\<close> suspends
  and emits nothing) and keyed messages from \<^verbatim>\<open>createQuery\<close>. The handlers of the keyed
  messages (\<^verbatim>\<open>exec\<close>, \<^verbatim>\<open>createCallbackFunction\<close>, \<^verbatim>\<open>destroy\<close>) do nothing after the emission
  of an error message, and only that emission can make the listener throw (user
  callbacks are taken to return normally): so the messages emitted by the call are
  delivered here in their order, and the error thrown by the listener is the error
  thrown by the call.
\<close>

definition processor_postMessage ::
  "'db Sqlite3 \<Rightarrow> InputMessage \<Rightarrow> 'db SQLocal \<Rightarrow> (error option \<times> 'db SQLocal) option" where
  "processor_postMessage eng m c =
     (case processor c of
        Worker posted l \<Rightarrow> Some (None, c\<lparr>processor := Worker (posted @ [m]) l\<rparr>)
      | InProcess p \<Rightarrow>
          (case postMessage eng m p of
             None \<Rightarrow> None
           | Some p' \<Rightarrow>
               Some (deliver (drop (length (emitted p)) (emitted p'))
                       (c\<lparr>processor := InProcess p'\<rparr>))))"

text \<open>The requests \<^verbatim>\<open>createQuery\<close> is called with, and the message each becomes under the
  key that \<^verbatim>\<open>nanoid()\<close> returned.\<close>

datatype Request =
    QueryRequest string "jsval list" string
  | TransactionRequest "Statement list"
  | FunctionRequest string
  | DestroyRequest

fun withKey :: "string \<Rightarrow> Request \<Rightarrow> InputMessage" where
  "withKey k (QueryRequest q ps method) = QueryMessage k q ps method"
| "withKey k (TransactionRequest stmts) = TransactionMessage k stmts"
| "withKey k (FunctionRequest n) = FunctionMessage k n"
| "withKey k DestroyRequest = DestroyMessage k"

text \<open>
  \<^verbatim>\<open>createQuery\<close>, with \<open>k\<close> the key that \<^verbatim>\<open>nanoid()\<close> returns to this call and \<open>aw\<close> the
  method that awaits the promise. \<open>Inl e\<close>: the call throws \<open>e\<close>; \<open>Inr ()\<close>: it returns the
  promise. The message is posted first, the pending entry is stored after.
\<close>

definition createQuery ::
  "'db Sqlite3 \<Rightarrow> string \<Rightarrow> Request \<Rightarrow> Awaiting \<Rightarrow> 'db SQLocal \<Rightarrow>
     ((error + unit) \<times> 'db SQLocal) option" where
  "createQuery eng k req aw c =
     (if isDestroyed c then Some (Inl destroyed_error, c)
      else (case processor_postMessage eng (withKey k req) c of
              None \<Rightarrow> None
            | Some (Some e, c') \<Rightarrow> Some (Inl e, c')
            | Some (None, c') \<Rightarrow>
                Some (Inr (), c'\<lparr>queriesInProgress := AList.update k aw (queriesInProgress c')\<rparr>)))"

text \<open>The methods up to their \<^verbatim>\<open>await\<close>. A throw of \<^verbatim>\<open>createQuery\<close> rejects the promise
  that the method returns (\<open>Inl\<close>); otherwise the method waits (\<open>Inr ()\<close>). The builder
  passed to \<^verbatim>\<open>transaction\<close> is a function of the caller that returns its statements.\<close>

definition SQLocal_exec ::
  "'db Sqlite3 \<Rightarrow> string \<Rightarrow> string \<Rightarrow> jsval list \<Rightarrow> string \<Rightarrow> 'db SQLocal \<Rightarrow>
     ((error + unit) \<times> 'db SQLocal) option" where
  "SQLocal_exec eng k q ps method c = createQuery eng k (QueryRequest q ps method) AwaitExec c"

definition SQLocal_sql ::
  "'db Sqlite3 \<Rightarrow> string \<Rightarrow> string list \<Rightarrow> jsval list \<Rightarrow> 'db SQLocal \<Rightarrow>
     ((error + unit) \<times> 'db SQLocal) option" where
  "SQLocal_sql eng k queryTemplate ps c =
     (let statement = convertSqlTemplate queryTemplate ps
      in createQuery eng k (QueryRequest (sql statement) (params statement) ''all'') AwaitSql c)"

definition SQLocal_transaction ::
  "'db Sqlite3 \<Rightarrow> string \<Rightarrow> ((string list \<Rightarrow> jsval list \<Rightarrow> Statement) \<Rightarrow> Statement list) \<Rightarrow>
     'db SQLocal \<Rightarrow> ((error + unit) \<times> 'db SQLocal) option" where
  "SQLocal_transaction eng k passStatements c =
     (let statements = passStatements convertSqlTemplate
      in createQuery eng k (TransactionRequest statements) AwaitTransaction c)"

definition SQLocal_createCallbackFunction ::
  "'db Sqlite3 \<Rightarrow> string \<Rightarrow> string \<Rightarrow> nat \<Rightarrow> 'db SQLocal \<Rightarrow>
     ((error + unit) \<times> 'db SQLocal) option" where
  "SQLocal_createCallbackFunction eng k functionName handler c =
     createQuery eng k (FunctionRequest functionName) (AwaitFunction functionName handler) c"

definition SQLocal_destroy ::
  "'db Sqlite3 \<Rightarrow> string \<Rightarrow> 'db SQLocal \<Rightarrow> ((error + unit) \<times> 'db SQLocal) option" where
  "SQLocal_destroy eng k c = createQuery eng k DestroyRequest AwaitDestroy c"

text \<open>The events of a client: a call of a public method (with the key \<^verbatim>\<open>nanoid()\<close> would
  return), and a message event from the worker. After either, the pending reactions run.\<close>

datatype ApiCall =
    CallExec string "jsval list" string
  | CallSql "string list" "jsval list"
  | CallTransaction "(string list \<Rightarrow> jsval list \<Rightarrow> Statement) \<Rightarrow> Statement list"
  | CallCreateCallbackFunction string nat
  | CallDestroy

fun call ::
  "'db Sqlite3 \<Rightarrow> string \<Rightarrow> ApiCall \<Rightarrow> 'db SQLocal \<Rightarrow> ((error + unit) \<times> 'db SQLocal) option" where
  "call eng k (CallExec q ps method) c = SQLocal_exec eng k q ps method c"
| "call eng k (CallSql queryTemplate ps) c = SQLocal_sql eng k queryTemplate ps c"
| "call eng k (CallTransaction passStatements) c = SQLocal_transaction eng k passStatements c"
| "call eng k (CallCreateCallbackFunction n h) c = SQLocal_createCallbackFunction eng k n h c"
| "call eng k CallDestroy c = SQLocal_destroy eng k c"

text \<open>A message event of the transport: nothing is delivered once the listener is
  removed from the worker. The listener of the in-process processor stays.\<close>

definition listening :: "'db SQLocal \<Rightarrow> bool" where
  "listening c = (case processor c of Worker posted l \<Rightarrow> l | InProcess p \<Rightarrow> True)"

definition onMessageEvent :: "OutputMessage \<Rightarrow> 'db SQLocal \<Rightarrow> error option \<times> 'db SQLocal" where
  "onMessageEvent m c =
     (if \<not> listening c then (None, c)
      else (case processMessageEvent m c of (thrown, c') \<Rightarrow> (thrown, drainJobs c')))"

datatype ClientEvent = Called string ApiCall | Received OutputMessage

fun clientStep :: "'db Sqlite3 \<Rightarrow> ClientEvent \<Rightarrow> 'db SQLocal \<Rightarrow> 'db SQLocal option" where
  "clientStep eng (Called k a) c =
     (case call eng k a c of None \<Rightarrow> None | Some (r, c') \<Rightarrow> Some (drainJobs c'))"
| "clientStep eng (Received m) c = Some (snd (onMessageEvent m c))"

fun clientSteps :: "'db Sqlite3 \<Rightarrow> ClientEvent list \<Rightarrow> 'db SQLocal \<Rightarrow> 'db SQLocal option" where
  "clientSteps eng [] c = Some c"
| "clientSteps eng (ev # evs) c = Option.bind (clientStep eng ev c) (clientSteps eng evs)"

text \<open>The constructor, from a path or from a config object.\<close>

definition new_SQLocal :: "'db Sqlite3 \<Rightarrow> string + ProcessorConfig \<Rightarrow> 'db SQLocal option" where
  "new_SQLocal eng cfg =
     (let inProcess = (case cfg of Inl path \<Rightarrow> False
                       | Inr c \<Rightarrow> truthy (storage c) \<and>
                                  (storage c = Some ''local'' \<or> storage c = Some ''session''));
          message = ConfigMessage (case cfg of Inl path \<Rightarrow> emptyConfig\<lparr>databasePath := Some path\<rparr>
                                   | Inr c \<Rightarrow> c);
          c = \<lparr>processor = (if inProcess then InProcess (new_SQLocalProcessor\<lparr>onmessage := True\<rparr>)
                             else Worker [] True),
               isDestroyed = False, userCallbacks = [], queriesInProgress = [], jobs = [],
               completed = [], invoked = []\<rparr>
      in map_option snd (processor_postMessage eng message c))"

section \<open>Notions used in the statements\<close>

text \<open>The guarantee asked of the atomic-execution primitive: an error thrown by the
  callback is thrown by the primitive.\<close>

definition propagatesFailure :: "'db Sqlite3 \<Rightarrow> bool" where
  "propagatesFailure eng =
     (\<forall>f d e cs d'. f d = (Inl e, cs, d') \<longrightarrow>
        (\<exists>cs' d''. db_transaction eng f d = (Inl e, cs', d'')))"

text \<open>The user functions of the given names attached to a connection, one after the
  other.\<close>

fun attachAll :: "'db Sqlite3 \<Rightarrow> string list \<Rightarrow> 'db \<Rightarrow> error + 'db" where
  "attachAll eng [] d = Inr d"
| "attachAll eng (n # ns) d =
     (case db_createFunction eng n d of Inl e \<Rightarrow> Inl e | Inr d' \<Rightarrow> attachAll eng ns d')"

text \<open>The messages that arrive in a run of events, in their order, and the events that
  are the arrival of a config message.\<close>

fun arrivals :: "ProcessorEvent list \<Rightarrow> InputMessage list" where
  "arrivals [] = []"
| "arrivals (Arrives m # evs) = m # arrivals evs"
| "arrivals (ModuleSettles r # evs) = arrivals evs"

fun is_config_arrival :: "ProcessorEvent \<Rightarrow> bool" where
  "is_config_arrival (Arrives m) = is_config m"
| "is_config_arrival (ModuleSettles r) = False"

fun is_destroy :: "InputMessage \<Rightarrow> bool" where
  "is_destroy (DestroyMessage k) = True"
| "is_destroy _ = False"

fun is_callback :: "OutputMessage \<Rightarrow> bool" where
  "is_callback (CallbackMessage n args) = True"
| "is_callback _ = False"

subsection \<open>An engine for the concrete instances\<close>

text \<open>
  One table of names and the names of the attached user functions. \<open>SELECT\<close> returns the
  table, \<open>INSERT\<close> appends its one text parameter, \<open>NOTIFY\<close> invokes the user function
  \<open>notify\<close> on the parameters, any other statement is a syntax error. The transaction
  primitive restores the database when its callback throws. The file \<open>locked\<close> cannot
  be opened.
\<close>

type_synonym grocery_db = "string list \<times> string list"

definition grocery_exec ::
  "string \<Rightarrow> jsval list \<Rightarrow> grocery_db \<Rightarrow>
     (error + jsval list list \<times> string list) \<times> calls \<times> grocery_db" where
  "grocery_exec q ps d =
     (if q = ''SELECT'' then (Inr (map (\<lambda>n. [Str n]) (fst d), [''name'']), [], d)
      else if q = ''INSERT'' then
        (case ps of
           [Str n] \<Rightarrow> (Inr ([], []), [], (fst d @ [n], snd d))
         | _ \<Rightarrow> (Inl (Error ''bind''), [], d))
      else if q = ''NOTIFY'' \<and> ''notify'' \<in> set (snd d)
        then (Inr ([[Null]], [''notify'']), [(''notify'', ps)], d)
      else (Inl (Error ''syntax error''), [], d))"

definition grocery_transaction ::
  "(grocery_db \<Rightarrow> (error + unit) \<times> calls \<times> grocery_db) \<Rightarrow> grocery_db \<Rightarrow>
     (error + unit) \<times> calls \<times> grocery_db" where
  "grocery_transaction f d =
     (case f d of (Inl e, c, d') \<Rightarrow> (Inl e, c, d) | (Inr u, c, d') \<Rightarrow> (Inr u, c, d'))"

definition grocery_open :: "string \<Rightarrow> error + grocery_db" where
  "grocery_open p =
     (if p = ''locked'' then Inl (Error ''unable to open database file'') else Inr ([], []))"

definition grocery :: "grocery_db Sqlite3" where
  "grocery =
     \<lparr>has_opfs = True,
      OpfsDb = (\<lambda>p f. grocery_open p),
      DB = (\<lambda>p f. grocery_open (case p of None \<Rightarrow> [] | Some t \<Rightarrow> t)),
      JsStorageDb = (\<lambda>st. grocery_open st),
      db_exec = grocery_exec,
      db_transaction = grocery_transaction,
      db_createFunction = (\<lambda>n d. if n = [] then Inl (Error ''bad name'')
                                  else Inr (fst d, snd d @ [n]))\<rparr>"

text \<open>A processor with a listener and an open connection to the database \<open>d\<close>.\<close>

definition ready :: "grocery_db \<Rightarrow> grocery_db SQLocalProcessor" where
  "ready d =
     \<lparr>sqlite3 = True, db = Some d, config = emptyConfig\<lparr>databasePath := Some ''db''\<rparr>,
      queuedMessages = [], userFunctions = [], onmessage = True, emitted = [], closed = [],
      suspended = []\<rparr>"

text \<open>The batch of the rollback test: a valid insert, then a statement with a syntax
  error.\<close>

definition failingBatch :: "Statement list" where
  "failingBatch =
     [\<lparr>sql = ''INSERT'', params = [Str ''carrots'']\<rparr>,
      \<lparr>sql = ''INSERT INT'', params = [Str ''lettuce'']\<rparr>]"

text \<open>Two configs: a database file, and the local storage of the browser (which makes
  the client run its processor in-process).\<close>

definition dbConfig :: ProcessorConfig where
  "dbConfig = emptyConfig\<lparr>databasePath := Some ''db''\<rparr>"

definition localConfig :: ProcessorConfig where
  "localConfig = emptyConfig\<lparr>storage := Some ''local''\<rparr>"

text \<open>The in-process processor of a client on the local storage, once its connection
  is open.\<close>

definition localProcessor :: "grocery_db SQLocalProcessor" where
  "localProcessor =
     \<lparr>sqlite3 = True, db = Some ([], []), config = localConfig, queuedMessages = [],
      userFunctions = [], onmessage = True, emitted = [], closed = [], suspended = []\<rparr>"

text \<open>A client that has made no call yet.\<close>

definition clientOf :: "'db Processor \<Rightarrow> 'db SQLocal" where
  "clientOf p =
     \<lparr>processor = p, isDestroyed = False, userCallbacks = [], queriesInProgress = [],
      jobs = [], completed = [], invoked = []\<rparr>"

text \<open>A destroyed client with nothing pending.\<close>

definition inert :: "'db SQLocal \<Rightarrow> bool" where
  "inert c = (isDestroyed c \<and> queriesInProgress c = [] \<and> jobs c = [])"

text \<open>A processor on which the user function \<open>notify\<close> has been registered (the
  request had the key \<open>k1\<close>).\<close>

definition registered :: "grocery_db SQLocalProcessor" where
  "registered =
     (ready ([''apples''], [''notify'']))
       \<lparr>userFunctions := [(''notify'', CallbackUserFunction ''notify'')],
        emitted := [SuccessMessage ''k1'']\<rparr>"

text \<open>The config of a database file that cannot be opened, and a processor that waits
  for the module with that config.\<close>

definition lockedConfig :: ProcessorConfig where
  "lockedConfig = emptyConfig\<lparr>databasePath := Some ''locked''\<rparr>"

definition loading :: "grocery_db SQLocalProcessor" where
  "loading =
     \<lparr>sqlite3 = False, db = None, config = lockedConfig, queuedMessages = [],
      userFunctions = [], onmessage = True, emitted = [], closed = [],
      suspended = [frame_of lockedConfig]\<rparr>"

text \<open>A client of a worker with two requests pending: a query of \<^verbatim>\<open>sql\<close> and, sent after
  it, the request of \<^verbatim>\<open>destroy\<close>.\<close>

definition closing :: "grocery_db SQLocal" where
  "closing =
     (clientOf (Worker [QueryMessage ''k1'' ''SELECT'' [] ''all'', DestroyMessage ''kd''] True))
       \<lparr>queriesInProgress := [(''k1'', AwaitSql), (''kd'', AwaitDestroy)]\<rparr>"

text \<open>The same client after the acknowledgement of the destroy request has arrived.\<close>

definition closedClient :: "grocery_db SQLocal" where
  "closedClient =
     (clientOf (Worker [QueryMessage ''k1'' ''SELECT'' [] ''all'', DestroyMessage ''kd''] False))
       \<lparr>isDestroyed := True, completed := [(''kd'', ReturnedVoid)]\<rparr>"

section \<open>The activations, one equation each\<close>

lemma run_PostMessage_queued:
  "db s = None \<Longrightarrow> \<not> is_config m \<Longrightarrow>
   run eng (PostMessage m) s = Some (s\<lparr>queuedMessages := queuedMessages s @ [m]\<rparr>)"
  by (subst run.simps) simp

lemma run_PostMessage_ready:
  "db s = Some d \<Longrightarrow>
   run eng (PostMessage m) s =
     (case m of
        ConfigMessage c \<Rightarrow> run eng Init (s\<lparr>config := c\<rparr>)
      | QueryMessage k q ps method \<Rightarrow> Some (exec eng m s)
      | TransactionMessage k stmts \<Rightarrow> Some (exec eng m s)
      | FunctionMessage k n \<Rightarrow> Some (createCallbackFunction eng k n s)
      | DestroyMessage k \<Rightarrow> Some (destroy k s))"
  by (subst run.simps) simp

lemma run_PostMessage_Config:
  "run eng (PostMessage (ConfigMessage c)) s = run eng Init (s\<lparr>config := c\<rparr>)"
  by (subst run.simps) simp

lemma run_Init:
  "run eng Init s =
     (if \<not> configValid (config s) then Some s
      else if \<not> sqlite3 s then Some (s\<lparr>suspended := suspended s @ [frame_of (config s)]\<rparr>)
      else run eng (InitConnect (frame_of (config s))) s)"
  by (subst run.simps) simp

lemma run_InitResume_Inl: "run eng (InitResume fr (Inl e)) s = Some (initCatch e s)"
  by (subst run.simps) simp

lemma run_InitResume_Inr:
  "run eng (InitResume fr (Inr u)) s = run eng (InitConnect fr) (s\<lparr>sqlite3 := True\<rparr>)"
  by (subst run.simps) simp

lemma run_InitConnect:
  "run eng (InitConnect fr) s =
     (case openDatabase eng fr of
        Inl e \<Rightarrow> Some (initCatch e (closeDb s))
      | Inr d \<Rightarrow>
          (case forEach_initUserFunction eng (userFunctions s) ((closeDb s)\<lparr>db := Some d\<rparr>) of
             (Some e, s') \<Rightarrow> Some s'
           | (None, s') \<Rightarrow> run eng FlushQueue s'))"
  by (subst run.simps) simp

lemma run_FlushQueue_Nil: "queuedMessages s = [] \<Longrightarrow> run eng FlushQueue s = Some s"
  by (subst run.simps) simp

lemma run_FlushQueue_Cons:
  "queuedMessages s = m # ms \<Longrightarrow>
   run eng FlushQueue s =
     Option.bind (run eng (PostMessage m) (s\<lparr>queuedMessages := ms\<rparr>)) (run eng FlushQueue)"
  by (subst run.simps) simp

section \<open>Statement execution\<close>

lemma relay_emitted:
  "onmessage s \<Longrightarrow>
   relay cs s = s\<lparr>emitted := emitted s @ map (\<lambda>c. CallbackMessage (fst c) (snd c)) cs\<rparr>"
proof (induction cs arbitrary: s)
  case Nil
  then show ?case by (simp add: relay_def)
next
  case (Cons c cs)
  have "relay (c # cs) s = relay cs (emitMessage (CallbackMessage (fst c) (snd c)) s)"
    by (simp add: relay_def)
  also have "\<dots> = relay cs (s\<lparr>emitted := emitted s @ [CallbackMessage (fst c) (snd c)]\<rparr>)"
    using Cons.prems by (simp add: emitMessage_def)
  finally show ?case using Cons.prems by (simp add: Cons.IH)
qed

lemma exec_Query:
  assumes "db s = Some d" "onmessage s" "db_exec eng q ps d = (r, cs, d')"
  shows "exec eng (QueryMessage k q ps method) s =
           s\<lparr>db := Some d',
             emitted := emitted s @ map (\<lambda>c. CallbackMessage (fst c) (snd c)) cs @
               [case r of Inl e \<Rightarrow> ErrorMessage (Some k) e
                | Inr rc \<Rightarrow> DataMessage k (shapeRows method (fst rc)) (snd rc)]\<rparr>"
  using assms by (cases r) (auto simp: exec_def relay_emitted emitMessage_def split: prod.splits)

lemma exec_Transaction:
  assumes "db s = Some d" "onmessage s"
    "db_transaction eng (executeStatements eng stmts) d = (r, cs, d')"
  shows "exec eng (TransactionMessage k stmts) s =
           s\<lparr>db := Some d',
             emitted := emitted s @ map (\<lambda>c. CallbackMessage (fst c) (snd c)) cs @
               [case r of Inl e \<Rightarrow> ErrorMessage (Some k) e
                | Inr u \<Rightarrow> DataMessage k (Arr []) []]\<rparr>"
  using assms by (cases r) (auto simp: exec_def relay_emitted emitMessage_def split: prod.splits)

text \<open>
  \<^bold>\<open>C8.\<close> On a processor with a connection and a listener, a query whose execution succeeds
  with the rows \<open>rows\<close> and the column names \<open>cols\<close> is answered (after the callback
  messages of the user functions the execution invoked) by one data message under the
  key of the query, with the column names as the engine gave them, and with rows shaped
  by the method: none for \<open>run\<close>, the first row of the result for \<open>get\<close> (\<open>rows[0]\<close>), all
  the rows for \<open>all\<close>.
\<close>

theorem query_data_shaped_by_method:
  assumes "db s = Some d" and "onmessage s"
    and "db_exec eng q ps d = (Inr (rows, cols), cs, d')"
  shows "postMessage eng (QueryMessage k q ps ''run'') s =
           Some (s\<lparr>db := Some d',
                   emitted := emitted s @ map (\<lambda>c. CallbackMessage (fst c) (snd c)) cs @
                              [DataMessage k (Arr []) cols]\<rparr>) \<and>
         postMessage eng (QueryMessage k q ps ''get'') s =
           Some (s\<lparr>db := Some d',
                   emitted := emitted s @ map (\<lambda>c. CallbackMessage (fst c) (snd c)) cs @
                              [DataMessage k (case rows of [] \<Rightarrow> Undefined | r # rest \<Rightarrow> Arr r) cols]\<rparr>) \<and>
         postMessage eng (QueryMessage k q ps ''all'') s =
           Some (s\<lparr>db := Some d',
                   emitted := emitted s @ map (\<lambda>c. CallbackMessage (fst c) (snd c)) cs @
                              [DataMessage k (Arr (map Arr rows)) cols]\<rparr>)"
  using assms
  by (simp add: postMessage_def run_PostMessage_ready exec_Query shapeRows_def)

theorem query_data_shaped_by_method_witness:
  "postMessage grocery (QueryMessage ''k1'' ''SELECT'' [] ''run'') (ready ([''apples'', ''pears''], [])) =
     Some ((ready ([''apples'', ''pears''], []))\<lparr>emitted := [DataMessage ''k1'' (Arr []) [''name'']]\<rparr>) \<and>
   postMessage grocery (QueryMessage ''k1'' ''SELECT'' [] ''get'') (ready ([''apples'', ''pears''], [])) =
     Some ((ready ([''apples'', ''pears''], []))\<lparr>emitted :=
        [DataMessage ''k1'' (Arr [Str ''apples'']) [''name'']]\<rparr>) \<and>
   postMessage grocery (QueryMessage ''k1'' ''SELECT'' [] ''all'') (ready ([''apples'', ''pears''], [])) =
     Some ((ready ([''apples'', ''pears''], []))\<lparr>emitted :=
        [DataMessage ''k1'' (Arr [Arr [Str ''apples''], Arr [Str ''pears'']]) [''name'']]\<rparr>)"
  using query_data_shaped_by_method [of "ready ([''apples'', ''pears''], [])"
      "([''apples'', ''pears''], [])" grocery "''SELECT''" "[]"
      "[[Str ''apples''], [Str ''pears'']]" "[''name'']" "[]" "([''apples'', ''pears''], [])" "''k1''"]
  by (simp add: ready_def grocery_def grocery_exec_def)

lemma executeStatements_append:
  "executeStatements eng (xs @ ys) d0 =
     (case executeStatements eng xs d0 of
        (Inl e, c, d1) \<Rightarrow> (Inl e, c, d1)
      | (Inr u, c, d1) \<Rightarrow>
          (case executeStatements eng ys d1 of (r, c', d2) \<Rightarrow> (r, c @ c', d2)))"
  by (induction xs arbitrary: d0) (auto split: prod.splits sum.splits)

lemma filter_callbacks:
  "filter (\<lambda>m. \<not> is_callback m) (map (\<lambda>c. CallbackMessage (fst c) (snd c)) cs @ [m])
     = (if is_callback m then [] else [m])"
  by (induction cs) auto

lemma executeStatements_at:
  "executeStatements eng (xs @ st # ys) d0 =
     (case executeStatements eng xs d0 of
        (Inl e, c, d1) \<Rightarrow> (Inl e, c, d1)
      | (Inr u, c, d1) \<Rightarrow>
          (case db_exec eng (sql st) (params st) d1 of
             (Inl e, c', d2) \<Rightarrow> (Inl e, c @ c', d2)
           | (Inr rc, c', d2) \<Rightarrow>
               (case executeStatements eng ys d2 of (r, c'', d3) \<Rightarrow> (r, c @ c' @ c'', d3))))"
  by (auto simp: executeStatements_append split: prod.splits sum.splits)

text \<open>
  \<^bold>\<open>C1.\<close> On a processor with a connection \<open>d\<close> and a listener, a transaction message makes
  one call of the engine's atomic-execution primitive on \<open>d\<close>, its callback being the loop
  over the statements of the message, and the answer is one message under the key of the
  batch: the error the primitive threw, or else a data message.

  The callback runs all the statements, in the order given. On an empty batch it does
  nothing. For every statement \<open>st\<close> of the batch, at every place where it stands (after
  the statements \<open>xs\<close>, before the statements \<open>ys\<close>): the callback first runs \<open>xs\<close>; if
  that threw, the batch ends with that error; otherwise it executes \<open>st\<close> with the
  engine's \<^verbatim>\<open>exec\<close>, with the text and the parameters of \<open>st\<close>, on the database that \<open>xs\<close>
  left; if that throws, the batch ends with that error; otherwise it runs \<open>ys\<close> on the
  database that \<open>st\<close> left.

  If a statement fails and the primitive lets the failure of its callback through, then
  apart from callback messages the processor emits the error message under the key of
  the batch and nothing else: no data message.
\<close>

theorem transaction_runs_in_one_primitive:
  assumes "db s = Some d" and "onmessage s"
  shows "(\<exists>r cs d'.
            db_transaction eng (executeStatements eng stmts) d = (r, cs, d') \<and>
            postMessage eng (TransactionMessage k stmts) s =
              Some (s\<lparr>db := Some d',
                      emitted := emitted s @ map (\<lambda>c. CallbackMessage (fst c) (snd c)) cs @
                        [case r of Inl e \<Rightarrow> ErrorMessage (Some k) e
                         | Inr u \<Rightarrow> DataMessage k (Arr []) []]\<rparr>)) \<and>
         (\<forall>d0. stmts = [] \<longrightarrow> executeStatements eng stmts d0 = (Inr (), [], d0)) \<and>
         (\<forall>xs st ys d0. stmts = xs @ st # ys \<longrightarrow>
            executeStatements eng stmts d0 =
              (case executeStatements eng xs d0 of
                 (Inl e, c, d1) \<Rightarrow> (Inl e, c, d1)
               | (Inr u, c, d1) \<Rightarrow>
                   (case db_exec eng (sql st) (params st) d1 of
                      (Inl e, c', d2) \<Rightarrow> (Inl e, c @ c', d2)
                    | (Inr rc, c', d2) \<Rightarrow>
                        (case executeStatements eng ys d2 of
                           (r, c'', d3) \<Rightarrow> (r, c @ c' @ c'', d3))))) \<and>
         (\<forall>e. propagatesFailure eng \<and> fst (executeStatements eng stmts d) = Inl e \<longrightarrow>
            (\<exists>s'. postMessage eng (TransactionMessage k stmts) s = Some s' \<and>
                  filter (\<lambda>m. \<not> is_callback m) (drop (length (emitted s)) (emitted s')) =
                    [ErrorMessage (Some k) e]))"
proof (intro conjI allI impI)
  obtain r cs d' where t: "db_transaction eng (executeStatements eng stmts) d = (r, cs, d')"
    by (metis prod_cases3)
  show "\<exists>r cs d'.
            db_transaction eng (executeStatements eng stmts) d = (r, cs, d') \<and>
            postMessage eng (TransactionMessage k stmts) s =
              Some (s\<lparr>db := Some d',
                      emitted := emitted s @ map (\<lambda>c. CallbackMessage (fst c) (snd c)) cs @
                        [case r of Inl e \<Rightarrow> ErrorMessage (Some k) e
                         | Inr u \<Rightarrow> DataMessage k (Arr []) []]\<rparr>)"
    using assms t by (simp add: postMessage_def run_PostMessage_ready exec_Transaction)
next
  fix d0
  assume "stmts = []"
  then show "executeStatements eng stmts d0 = (Inr (), [], d0)" by simp
next
  fix xs st ys d0
  assume "stmts = xs @ st # ys"
  then show "executeStatements eng stmts d0 =
              (case executeStatements eng xs d0 of
                 (Inl e, c, d1) \<Rightarrow> (Inl e, c, d1)
               | (Inr u, c, d1) \<Rightarrow>
                   (case db_exec eng (sql st) (params st) d1 of
                      (Inl e, c', d2) \<Rightarrow> (Inl e, c @ c', d2)
                    | (Inr rc, c', d2) \<Rightarrow>
                        (case executeStatements eng ys d2 of
                           (r, c'', d3) \<Rightarrow> (r, c @ c' @ c'', d3))))"
    by (simp only: executeStatements_at)
next
  fix e
  assume h: "propagatesFailure eng \<and> fst (executeStatements eng stmts d) = Inl e"
  then obtain cs0 d0 where "executeStatements eng stmts d = (Inl e, cs0, d0)"
    by (metis fst_conv prod_cases3)
  with h obtain cs d' where
    t: "db_transaction eng (executeStatements eng stmts) d = (Inl e, cs, d')"
    unfolding propagatesFailure_def by blast
  have "postMessage eng (TransactionMessage k stmts) s =
          Some (s\<lparr>db := Some d',
                  emitted := emitted s @ map (\<lambda>c. CallbackMessage (fst c) (snd c)) cs @
                             [ErrorMessage (Some k) e]\<rparr>)"
    using assms t by (simp add: postMessage_def run_PostMessage_ready exec_Transaction)
  then show "\<exists>s'. postMessage eng (TransactionMessage k stmts) s = Some s' \<and>
                  filter (\<lambda>m. \<not> is_callback m) (drop (length (emitted s)) (emitted s')) =
                    [ErrorMessage (Some k) e]"
    by (simp add: filter_callbacks)
qed

text \<open>The rollback test on the grocery engine: the insert runs on the empty table and
  leaves \<open>carrots\<close> in it, the second statement runs on that table and throws, the
  primitive restores the table and the one answer is the error. The empty batch is
  answered by a data message.\<close>

theorem transaction_runs_in_one_primitive_witness:
  "propagatesFailure grocery \<and>
   failingBatch = [] @ (failingBatch ! 0) # [failingBatch ! 1] \<and>
   failingBatch = [failingBatch ! 0] @ (failingBatch ! 1) # [] \<and>
   db_exec grocery (sql (failingBatch ! 0)) (params (failingBatch ! 0)) ([], []) =
     (Inr ([], []), [], ([''carrots''], [])) \<and>
   db_exec grocery (sql (failingBatch ! 1)) (params (failingBatch ! 1)) ([''carrots''], []) =
     (Inl (Error ''syntax error''), [], ([''carrots''], [])) \<and>
   executeStatements grocery failingBatch ([], []) =
     (Inl (Error ''syntax error''), [], ([''carrots''], [])) \<and>
   postMessage grocery (TransactionMessage ''k1'' failingBatch) (ready ([], [])) =
     Some ((ready ([], []))\<lparr>emitted := [ErrorMessage (Some ''k1'') (Error ''syntax error'')]\<rparr>) \<and>
   executeStatements grocery [] ([''apples''], []) = (Inr (), [], ([''apples''], [])) \<and>
   postMessage grocery (TransactionMessage ''k2'' []) (ready ([''apples''], [])) =
     Some ((ready ([''apples''], []))\<lparr>emitted := [DataMessage ''k2'' (Arr []) []]\<rparr>)"
proof -
  have g: "propagatesFailure grocery"
    by (auto simp: propagatesFailure_def grocery_def grocery_transaction_def)
  have r: "db (ready ([], [])) = Some ([], [])" "onmessage (ready ([], []))"
    by (simp_all add: ready_def)
  note inst = transaction_runs_in_one_primitive [OF r, of grocery failingBatch "''k1''"]
  have sp0: "failingBatch = [] @ (failingBatch ! 0) # [failingBatch ! 1]"
    by (simp add: failingBatch_def)
  have sp1: "failingBatch = [failingBatch ! 0] @ (failingBatch ! 1) # []"
    by (simp add: failingBatch_def)
  have e0: "db_exec grocery (sql (failingBatch ! 0)) (params (failingBatch ! 0)) ([], []) =
     (Inr ([], []), [], ([''carrots''], []))"
    by (simp add: failingBatch_def grocery_def grocery_exec_def)
  have e1: "db_exec grocery (sql (failingBatch ! 1)) (params (failingBatch ! 1)) ([''carrots''], []) =
     (Inl (Error ''syntax error''), [], ([''carrots''], []))"
    by (simp add: failingBatch_def grocery_def grocery_exec_def)
  have nil: "executeStatements grocery [] d0 = (Inr (), [], d0)" for d0 :: grocery_db
    using transaction_runs_in_one_primitive [OF r, of grocery "[]" "''k2''",
        THEN conjunct2, THEN conjunct1, rule_format, of d0]
    by simp
  have one: "executeStatements grocery [failingBatch ! 0] ([], []) = (Inr (), [], ([''carrots''], []))"
    using transaction_runs_in_one_primitive [OF r, of grocery "[failingBatch ! 0]" "''k1''",
        THEN conjunct2, THEN conjunct2, THEN conjunct1, rule_format,
        of "[]" "failingBatch ! 0" "[]" "([], [])"]
    by (simp only: append_Nil nil e0 prod.case sum.case append_Nil2)
  have f: "executeStatements grocery failingBatch ([], []) =
             (Inl (Error ''syntax error''), [], ([''carrots''], []))"
    using inst [THEN conjunct2, THEN conjunct2, THEN conjunct1, rule_format, OF sp1, of "([], [])"]
    by (simp only: one e1 prod.case sum.case append_Nil2)
  have "propagatesFailure grocery \<and>
        fst (executeStatements grocery failingBatch ([], [])) = Inl (Error ''syntax error'')"
    using f g by simp
  from inst [THEN conjunct2, THEN conjunct2, THEN conjunct2, rule_format, OF this] obtain s' where
    p: "postMessage grocery (TransactionMessage ''k1'' failingBatch) (ready ([], [])) = Some s'"
    and "filter (\<lambda>m. \<not> is_callback m) (drop (length (emitted (ready ([], [])))) (emitted s')) =
           [ErrorMessage (Some ''k1'') (Error ''syntax error'')]"
    by blast
  from inst [THEN conjunct1] obtain r' cs d' where
    t: "db_transaction grocery (executeStatements grocery failingBatch) ([], []) = (r', cs, d')"
    and q: "postMessage grocery (TransactionMessage ''k1'' failingBatch) (ready ([], [])) =
       Some ((ready ([], []))\<lparr>db := Some d',
               emitted := emitted (ready ([], [])) @ map (\<lambda>c. CallbackMessage (fst c) (snd c)) cs @
                 [case r' of Inl e \<Rightarrow> ErrorMessage (Some ''k1'') e
                  | Inr u \<Rightarrow> DataMessage ''k1'' (Arr []) []]\<rparr>)"
    by blast
  from t have "r' = Inl (Error ''syntax error'') \<and> cs = [] \<and> d' = ([], [])"
    using f by (simp add: grocery_def grocery_transaction_def)
  with q have failing: "postMessage grocery (TransactionMessage ''k1'' failingBatch) (ready ([], [])) =
     Some ((ready ([], []))\<lparr>emitted := [ErrorMessage (Some ''k1'') (Error ''syntax error'')]\<rparr>)"
    by (simp add: ready_def)
  have r2: "db (ready ([''apples''], [])) = Some ([''apples''], [])" "onmessage (ready ([''apples''], []))"
    by (simp_all add: ready_def)
  from transaction_runs_in_one_primitive [OF r2, of grocery "[]" "''k2''", THEN conjunct1]
  obtain r'' cs'' d'' where
    t2: "db_transaction grocery (executeStatements grocery []) ([''apples''], []) = (r'', cs'', d'')"
    and q2: "postMessage grocery (TransactionMessage ''k2'' []) (ready ([''apples''], [])) =
       Some ((ready ([''apples''], []))\<lparr>db := Some d'',
               emitted := emitted (ready ([''apples''], [])) @
                 map (\<lambda>c. CallbackMessage (fst c) (snd c)) cs'' @
                 [case r'' of Inl e \<Rightarrow> ErrorMessage (Some ''k2'') e
                  | Inr u \<Rightarrow> DataMessage ''k2'' (Arr []) []]\<rparr>)"
    by blast
  from t2 have "r'' = Inr () \<and> cs'' = [] \<and> d'' = ([''apples''], [])"
    by (simp add: grocery_def grocery_transaction_def)
  with q2 have empty: "postMessage grocery (TransactionMessage ''k2'' []) (ready ([''apples''], [])) =
     Some ((ready ([''apples''], []))\<lparr>emitted := [DataMessage ''k2'' (Arr []) []]\<rparr>)"
    by (simp add: ready_def)
  from g sp0 sp1 e0 e1 f failing nil [of "([''apples''], [])"] empty show ?thesis
    by (intro conjI)
qed

section \<open>The queue\<close>

lemma run_queue_only:
  assumes r: "run eng a s = Some t"
  shows "(\<forall>m. a = PostMessage m \<longrightarrow> db s = None \<longrightarrow> \<not> is_config m \<longrightarrow>
            t = s\<lparr>queuedMessages := queuedMessages s @ [m]\<rparr>) \<and>
         (a = FlushQueue \<longrightarrow> db s = None \<longrightarrow>
            list_all (\<lambda>m. \<not> is_config m) (queuedMessages s) \<longrightarrow> queuedMessages s = [])"
proof (induction eng a s t rule: run.raw_induct)
  case (1 run' eng a s t)
  show ?case
  proof (intro conjI allI impI)
    fix m
    assume "a = PostMessage m" "db s = None" "\<not> is_config m"
    with "1.hyps" show "t = s\<lparr>queuedMessages := queuedMessages s @ [m]\<rparr>" by simp
  next
    assume a: "a = FlushQueue" and d: "db s = None"
      and q: "list_all (\<lambda>m. \<not> is_config m) (queuedMessages s)"
    show "queuedMessages s = []"
    proof (cases "queuedMessages s")
      case Nil
      then show ?thesis .
    next
      case (Cons m ms)
      with "1.hyps" a obtain u where
        u: "run' eng (PostMessage m) (s\<lparr>queuedMessages := ms\<rparr>) = Some u"
        and v: "run' eng FlushQueue u = Some t"
        by (auto simp: Option.bind_eq_Some_conv)
      from q Cons have nc: "\<not> is_config m" and rest: "list_all (\<lambda>m. \<not> is_config m) ms"
        by simp_all
      from "1.IH" [OF u] d nc have ueq: "u = s\<lparr>queuedMessages := ms @ [m]\<rparr>" by simp
      from "1.IH" [OF v] have "queuedMessages u = []"
        using ueq d nc rest by simp
      with ueq show ?thesis by simp
    qed
  qed
qed (fact r)

text \<open>Without a connection every message taken from the queue is appended to it again:
  the loop of \<^verbatim>\<open>flushQueue\<close> does not end.\<close>

lemma flushQueue_without_connection_diverges:
  assumes "db s = None" "queuedMessages s \<noteq> []"
    "list_all (\<lambda>m. \<not> is_config m) (queuedMessages s)"
  shows "run eng FlushQueue s = None"
proof (cases "run eng FlushQueue s")
  case None
  then show ?thesis .
next
  case (Some t)
  from run_queue_only [OF Some] assms show ?thesis by simp
qed


lemma relay_Nil: "relay [] s = s"
  by (simp add: relay_def)

lemma relay_Cons: "relay (c # cs) s = relay cs (emitMessage (CallbackMessage (fst c) (snd c)) s)"
  by (simp add: relay_def)

lemma emitMessage_fields:
  "db (emitMessage m s) = db s" "queuedMessages (emitMessage m s) = queuedMessages s"
  by (simp_all add: emitMessage_def)

lemma emitMessage_queue_update:
  "emitMessage m (s\<lparr>queuedMessages := q\<rparr>) = (emitMessage m s)\<lparr>queuedMessages := q\<rparr>"
  by (simp add: emitMessage_def)

lemma relay_fields:
  "db (relay cs s) = db s" "queuedMessages (relay cs s) = queuedMessages s"
  by (induction cs arbitrary: s) (simp_all add: relay_Nil relay_Cons emitMessage_fields)

lemma relay_queue_update:
  "relay cs (s\<lparr>queuedMessages := q\<rparr>) = (relay cs s)\<lparr>queuedMessages := q\<rparr>"
  by (induction cs arbitrary: s) (simp_all add: relay_Nil relay_Cons emitMessage_queue_update)

lemma relay_queue_update_db:
  "relay cs (s\<lparr>queuedMessages := q, db := x\<rparr>) = (relay cs (s\<lparr>db := x\<rparr>))\<lparr>queuedMessages := q\<rparr>"
proof -
  have "s\<lparr>queuedMessages := q, db := x\<rparr> = (s\<lparr>db := x\<rparr>)\<lparr>queuedMessages := q\<rparr>"
    by simp
  then show ?thesis
    by (simp only: relay_queue_update)
qed

lemma exec_queue_update:
  "exec eng m (s\<lparr>queuedMessages := q\<rparr>) = (exec eng m s)\<lparr>queuedMessages := q\<rparr>"
  by (cases m)
     (auto simp: exec_def relay_queue_update_db emitMessage_queue_update
       split: option.splits prod.splits sum.splits)

lemma createCallbackFunction_queue_update:
  "createCallbackFunction eng k n (s\<lparr>queuedMessages := q\<rparr>) =
     (createCallbackFunction eng k n s)\<lparr>queuedMessages := q\<rparr>"
  by (auto simp: createCallbackFunction_def initUserFunction_def emitMessage_def
       split: option.splits prod.splits sum.splits)

lemma postMessage_queue_irrelevant:
  assumes "db s = Some d" "\<not> is_config m" "\<not> is_destroy m"
  shows "postMessage eng m (s\<lparr>queuedMessages := q\<rparr>) =
           map_option (\<lambda>t. t\<lparr>queuedMessages := q\<rparr>) (postMessage eng m s)"
  using assms
  by (cases m)
     (simp_all add: postMessage_def run_PostMessage_ready exec_queue_update
        createCallbackFunction_queue_update)

lemma exec_keeps_connection:
  "db s = Some d \<Longrightarrow> \<exists>d'. db (exec eng m s) = Some d' \<and>
     queuedMessages (exec eng m s) = queuedMessages s"
  by (cases m)
     (auto simp: exec_def emitMessage_fields relay_fields split: prod.splits sum.splits)

lemma createCallbackFunction_keeps_connection:
  "db s = Some d \<Longrightarrow> \<exists>d'. db (createCallbackFunction eng k n s) = Some d' \<and>
     queuedMessages (createCallbackFunction eng k n s) = queuedMessages s"
  by (auto simp: createCallbackFunction_def initUserFunction_def emitMessage_fields
       split: prod.splits sum.splits)

text \<open>With a connection, a queue that holds neither a config nor a destroy message is
  emptied in arrival order: the flush is the arrival of its messages, one after the
  other, at the processor with an empty queue.\<close>

lemma postMessage_keeps_connection:
  assumes "db s = Some d" "\<not> is_config m" "\<not> is_destroy m"
  shows "\<exists>s' d'. postMessage eng m s = Some s' \<and> db s' = Some d' \<and>
                  queuedMessages s' = queuedMessages s"
  using assms exec_keeps_connection [of s d eng m]
    createCallbackFunction_keeps_connection [of s d eng]
  by (cases m) (simp_all add: postMessage_def run_PostMessage_ready)

lemma flushQueue_fifo:
  assumes "db s = Some d"
    and "list_all (\<lambda>m. \<not> is_config m \<and> \<not> is_destroy m) (queuedMessages s)"
  shows "flushQueue eng s = postMessages eng (queuedMessages s) (s\<lparr>queuedMessages := []\<rparr>) \<and>
         (\<exists>s'. flushQueue eng s = Some s' \<and> queuedMessages s' = [])"
  using assms
proof (induction "queuedMessages s" arbitrary: s d)
  case Nil
  then show ?case by (simp add: flushQueue_def run_FlushQueue_Nil)
next
  case (Cons m ms)
  from Cons.hyps(2) have q: "queuedMessages s = m # ms" by simp
  with Cons.prems have nm: "\<not> is_config m" "\<not> is_destroy m"
    and rest: "list_all (\<lambda>m. \<not> is_config m \<and> \<not> is_destroy m) ms" by simp_all
  have d0: "db (s\<lparr>queuedMessages := []\<rparr>) = Some d" using Cons.prems by simp
  from postMessage_keeps_connection [OF d0 nm, of eng] obtain s1 d1 where
    p0: "postMessage eng m (s\<lparr>queuedMessages := []\<rparr>) = Some s1"
    and d1: "db s1 = Some d1" and q1: "queuedMessages s1 = []" by auto
  have irrelevant: "postMessage eng m (s\<lparr>queuedMessages := ms\<rparr>) = Some (s1\<lparr>queuedMessages := ms\<rparr>)"
    using postMessage_queue_irrelevant [OF d0 nm, of eng ms] p0 by simp
  have hyp: "ms = queuedMessages (s1\<lparr>queuedMessages := ms\<rparr>)" by simp
  have d2: "db (s1\<lparr>queuedMessages := ms\<rparr>) = Some d1" using d1 by simp
  have r2: "list_all (\<lambda>m. \<not> is_config m \<and> \<not> is_destroy m) (queuedMessages (s1\<lparr>queuedMessages := ms\<rparr>))"
    using rest by simp
  note both = Cons.hyps(1) [OF hyp d2 r2]
  have ih: "flushQueue eng (s1\<lparr>queuedMessages := ms\<rparr>) = postMessages eng ms (s1\<lparr>queuedMessages := []\<rparr>)"
    using both [THEN conjunct1] by simp
  have ex: "\<exists>s'. flushQueue eng (s1\<lparr>queuedMessages := ms\<rparr>) = Some s' \<and> queuedMessages s' = []"
    using both [THEN conjunct2] .
  have s1eq: "s1\<lparr>queuedMessages := []\<rparr> = s1" using q1 by simp
  have fl: "flushQueue eng s = flushQueue eng (s1\<lparr>queuedMessages := ms\<rparr>)"
    using q irrelevant by (simp add: flushQueue_def run_FlushQueue_Cons postMessage_def)
  have pm: "postMessages eng (queuedMessages s) (s\<lparr>queuedMessages := []\<rparr>) = postMessages eng ms s1"
    using q p0 by simp
  have "flushQueue eng s = postMessages eng (queuedMessages s) (s\<lparr>queuedMessages := []\<rparr>)"
    using fl ih s1eq pm by simp
  moreover have "\<exists>s'. flushQueue eng s = Some s' \<and> queuedMessages s' = []"
    using ex fl by simp
  ultimately show ?case by simp
qed

text \<open>
  \<^bold>\<open>C2.\<close> A destroy message and a query arrive, in this order, while the module loads, and
  both are queued. When the connection is open the flush handles the destroy message,
  which closes the connection; the query that follows is then appended to the queue
  again each time it is taken from it, and the call never returns: the queue is never
  empty and the query is never dispatched.
\<close>

theorem flushQueue_hangs_after_queued_destroy:
  "postMessages grocery
       [ConfigMessage dbConfig, DestroyMessage ''k1'', QueryMessage ''k2'' ''SELECT'' [] ''all'']
       (new_SQLocalProcessor\<lparr>onmessage := True\<rparr>) =
     Some (new_SQLocalProcessor\<lparr>onmessage := True, config := dbConfig,
        suspended := [frame_of dbConfig],
        queuedMessages := [DestroyMessage ''k1'', QueryMessage ''k2'' ''SELECT'' [] ''all'']\<rparr>) \<and>
   resumeInit grocery (Inr ())
     (new_SQLocalProcessor\<lparr>onmessage := True, config := dbConfig,
        suspended := [frame_of dbConfig],
        queuedMessages := [DestroyMessage ''k1'', QueryMessage ''k2'' ''SELECT'' [] ''all'']\<rparr>) = None"
proof
  show "postMessages grocery
       [ConfigMessage dbConfig, DestroyMessage ''k1'', QueryMessage ''k2'' ''SELECT'' [] ''all'']
       (new_SQLocalProcessor\<lparr>onmessage := True\<rparr>) =
     Some (new_SQLocalProcessor\<lparr>onmessage := True, config := dbConfig,
        suspended := [frame_of dbConfig],
        queuedMessages := [DestroyMessage ''k1'', QueryMessage ''k2'' ''SELECT'' [] ''all'']\<rparr>)"
    by (simp add: postMessage_def run_PostMessage_Config run_Init new_SQLocalProcessor_def
        emptyConfig_def configValid_def truthy_def dbConfig_def run_PostMessage_queued)
next
  define s1 :: "grocery_db SQLocalProcessor" where
    "s1 = \<lparr>sqlite3 = True, db = Some ([], []), config = dbConfig,
          queuedMessages = [DestroyMessage ''k1'', QueryMessage ''k2'' ''SELECT'' [] ''all''],
          userFunctions = [], onmessage = True, emitted = [], closed = [], suspended = []\<rparr>"
  define s2 :: "grocery_db SQLocalProcessor" where
    "s2 = \<lparr>sqlite3 = True, db = None, config = dbConfig,
          queuedMessages = [QueryMessage ''k2'' ''SELECT'' [] ''all''],
          userFunctions = [], onmessage = True, emitted = [SuccessMessage ''k1''],
          closed = [([], [])], suspended = []\<rparr>"
  have a: "resumeInit grocery (Inr ())
     (new_SQLocalProcessor\<lparr>onmessage := True, config := dbConfig,
        suspended := [frame_of dbConfig],
        queuedMessages := [DestroyMessage ''k1'', QueryMessage ''k2'' ''SELECT'' [] ''all'']\<rparr>)
     = run grocery FlushQueue s1"
    by (simp add: resumeInit_def run_InitResume_Inr run_InitConnect openDatabase_def
        frame_of_def flags_of_def dbConfig_def emptyConfig_def truthy_def grocery_def
        grocery_open_def closeDb_def new_SQLocalProcessor_def s1_def)
  have b: "run grocery FlushQueue s1 = run grocery FlushQueue s2"
    by (simp add: s1_def s2_def run_FlushQueue_Cons [where m = "DestroyMessage ''k1''"]
        run_PostMessage_ready destroy_def closeDb_def emitMessage_def)
  have c: "run grocery FlushQueue s2 = None"
    by (rule flushQueue_without_connection_diverges) (simp_all add: s2_def)
  from a b c show "resumeInit grocery (Inr ())
     (new_SQLocalProcessor\<lparr>onmessage := True, config := dbConfig,
        suspended := [frame_of dbConfig],
        queuedMessages := [DestroyMessage ''k1'', QueryMessage ''k2'' ''SELECT'' [] ''all'']\<rparr>) = None"
    by simp
qed

section \<open>Destroy\<close>

lemma processorSteps_append:
  "processorSteps eng (xs @ ys) s = Option.bind (processorSteps eng xs s) (processorSteps eng ys)"
  by (induction xs arbitrary: s) (simp_all split: Option.bind_split)

lemma processorSteps_queued:
  "db s = None \<Longrightarrow> suspended s = [] \<Longrightarrow> list_all (\<lambda>ev. \<not> is_config_arrival ev) evs \<Longrightarrow>
   processorSteps eng evs s = Some (s\<lparr>queuedMessages := queuedMessages s @ arrivals evs\<rparr>)"
proof (induction evs arbitrary: s)
  case Nil
  then show ?case by simp
next
  case (Cons ev evs)
  show ?case
  proof (cases ev)
    case (Arrives m)
    with Cons show ?thesis by (simp add: postMessage_def run_PostMessage_queued)
  next
    case (ModuleSettles r)
    with Cons show ?thesis by (simp add: resumeInit_def)
  qed
qed

lemma forEach_attachAll:
  "attachAll eng (map (\<lambda>kf. fn_name (snd kf)) fs) d = Inr d1 \<Longrightarrow>
   forEach_initUserFunction eng fs (s\<lparr>db := Some d\<rparr>) = (None, s\<lparr>db := Some d1\<rparr>)"
  by (induction fs arbitrary: d) (auto simp: initUserFunction_def split: sum.splits)

lemma config_recreates_connection:
  assumes "sqlite3 s" and "configValid c" and "openDatabase eng (frame_of c) = Inr d0"
    and "attachAll eng (map (\<lambda>kf. fn_name (snd kf)) (userFunctions s)) d0 = Inr d1"
  shows "postMessage eng (ConfigMessage c) s = flushQueue eng ((closeDb s)\<lparr>config := c, db := Some d1\<rparr>)"
proof -
  have "forEach_initUserFunction eng (userFunctions s) ((closeDb (s\<lparr>config := c\<rparr>))\<lparr>db := Some d0\<rparr>)
          = (None, (closeDb (s\<lparr>config := c\<rparr>))\<lparr>db := Some d1\<rparr>)"
    using assms forEach_attachAll [of eng "userFunctions s" d0 d1 "closeDb (s\<lparr>config := c\<rparr>)"] by simp
  moreover have "(closeDb (s\<lparr>config := c\<rparr>))\<lparr>db := Some d1\<rparr> = (closeDb s)\<lparr>config := c, db := Some d1\<rparr>"
    by (simp add: closeDb_def split: option.splits)
  moreover have "userFunctions (closeDb (s\<lparr>config := c\<rparr>)) = userFunctions s"
    by (simp add: closeDb_def split: option.splits)
  ultimately show ?thesis
    using assms
    by (simp add: postMessage_def flushQueue_def run_PostMessage_Config run_Init run_InitConnect)
qed

text \<open>
  \<^bold>\<open>C4, as amended.\<close> On a processor with a connection and a listener, a destroy message
  closes the connection, drops it and is answered by a success message under its key.
  The processor does not stop for good: it keeps no destroyed state. In the events that
  follow, while no config message arrives and no activation of \<^verbatim>\<open>init\<close> waits for the
  module, every message that arrives is appended to the queue and none is dispatched.
  A config message that arrives after them, valid, with the module loaded, a database
  that opens and registered functions that the engine attaches, re-creates the
  connection, and the flush of the queue, which holds those messages, starts.
\<close>

theorem destroy_closes_and_later_messages_wait:
  assumes "db s = Some d" and "onmessage s" and "suspended s = []"
    and "list_all (\<lambda>ev. \<not> is_config_arrival ev) evs"
  shows "processorSteps eng (Arrives (DestroyMessage k) # evs) s =
           Some (s\<lparr>db := None, closed := closed s @ [d],
                   emitted := emitted s @ [SuccessMessage k],
                   queuedMessages := queuedMessages s @ arrivals evs\<rparr>) \<and>
         (sqlite3 s \<and> configValid c \<and> openDatabase eng (frame_of c) = Inr d0 \<and>
          attachAll eng (map (\<lambda>kf. fn_name (snd kf)) (userFunctions s)) d0 = Inr d1 \<longrightarrow>
            processorSteps eng (Arrives (DestroyMessage k) # evs @ [Arrives (ConfigMessage c)]) s =
              flushQueue eng
                (s\<lparr>config := c, db := Some d1, closed := closed s @ [d],
                   emitted := emitted s @ [SuccessMessage k],
                   queuedMessages := queuedMessages s @ arrivals evs\<rparr>))"
proof -
  let ?s1 = "s\<lparr>db := None, closed := closed s @ [d], emitted := emitted s @ [SuccessMessage k]\<rparr>"
  let ?s2 = "s\<lparr>db := None, closed := closed s @ [d], emitted := emitted s @ [SuccessMessage k],
               queuedMessages := queuedMessages s @ arrivals evs\<rparr>"
  have d: "postMessage eng (DestroyMessage k) s = Some ?s1"
    using assms by (simp add: postMessage_def run_PostMessage_ready destroy_def closeDb_def emitMessage_def)
  have q: "processorSteps eng evs ?s1 = Some ?s2"
    using assms processorSteps_queued [of ?s1 evs eng] by simp
  from d q have first: "processorSteps eng (Arrives (DestroyMessage k) # evs) s = Some ?s2"
    by simp
  have second: "processorSteps eng (Arrives (DestroyMessage k) # evs @ [Arrives (ConfigMessage c)]) s =
              flushQueue eng
                (s\<lparr>config := c, db := Some d1, closed := closed s @ [d],
                   emitted := emitted s @ [SuccessMessage k],
                   queuedMessages := queuedMessages s @ arrivals evs\<rparr>)"
    if h: "sqlite3 s \<and> configValid c \<and> openDatabase eng (frame_of c) = Inr d0 \<and>
          attachAll eng (map (\<lambda>kf. fn_name (snd kf)) (userFunctions s)) d0 = Inr d1"
  proof -
    have "processorSteps eng ((Arrives (DestroyMessage k) # evs) @ [Arrives (ConfigMessage c)]) s =
            Option.bind (processorSteps eng (Arrives (DestroyMessage k) # evs) s)
              (processorSteps eng [Arrives (ConfigMessage c)])"
      by (rule processorSteps_append)
    also have "\<dots> = Option.bind (Some ?s2) (processorSteps eng [Arrives (ConfigMessage c)])"
      by (simp only: first)
    also have "\<dots> = postMessage eng (ConfigMessage c) ?s2"
      by (cases "postMessage eng (ConfigMessage c) ?s2") simp_all
    also have "\<dots> = flushQueue eng ((closeDb ?s2)\<lparr>config := c, db := Some d1\<rparr>)"
      using h by (intro config_recreates_connection [where ?d0.0 = d0]) simp_all
    also have "(closeDb ?s2)\<lparr>config := c, db := Some d1\<rparr> =
                 s\<lparr>config := c, db := Some d1, closed := closed s @ [d],
                   emitted := emitted s @ [SuccessMessage k],
                   queuedMessages := queuedMessages s @ arrivals evs\<rparr>"
      by (simp add: closeDb_def)
    finally show ?thesis by simp
  qed
  from first second show ?thesis by blast
qed

theorem destroy_closes_and_later_messages_wait_witness:
  "processorSteps grocery
       [Arrives (DestroyMessage ''k1''), Arrives (QueryMessage ''k2'' ''SELECT'' [] ''all''),
        ModuleSettles (Inr ())]
       (ready ([''apples''], [])) =
     Some ((ready ([''apples''], []))\<lparr>db := None, closed := [([''apples''], [])],
        emitted := [SuccessMessage ''k1''],
        queuedMessages := [QueryMessage ''k2'' ''SELECT'' [] ''all'']\<rparr>) \<and>
   processorSteps grocery
       [Arrives (DestroyMessage ''k1''), Arrives (QueryMessage ''k2'' ''SELECT'' [] ''all''),
        ModuleSettles (Inr ()), Arrives (ConfigMessage dbConfig)]
       (ready ([''apples''], [])) =
     Some ((ready ([''apples''], []))\<lparr>config := dbConfig, db := Some ([], []),
        closed := [([''apples''], [])],
        emitted := [SuccessMessage ''k1'', DataMessage ''k2'' (Arr []) [''name'']]\<rparr>)"
proof -
  have h: "db (ready ([''apples''], [])) = Some ([''apples''], [])" "onmessage (ready ([''apples''], []))"
    "suspended (ready ([''apples''], [])) = []"
    "list_all (\<lambda>ev. \<not> is_config_arrival ev)
       [Arrives (QueryMessage ''k2'' ''SELECT'' [] ''all''), ModuleSettles (Inr ())]"
    by (simp_all add: ready_def)
  note inst = destroy_closes_and_later_messages_wait
    [OF h, where eng = grocery and k = "''k1''" and c = dbConfig and ?d0.0 = "([], [])"
       and ?d1.0 = "([], [])"]
  from inst [THEN conjunct1]
  have first: "processorSteps grocery
       [Arrives (DestroyMessage ''k1''), Arrives (QueryMessage ''k2'' ''SELECT'' [] ''all''),
        ModuleSettles (Inr ())]
       (ready ([''apples''], [])) =
     Some ((ready ([''apples''], []))\<lparr>db := None, closed := [([''apples''], [])],
        emitted := [SuccessMessage ''k1''],
        queuedMessages := [QueryMessage ''k2'' ''SELECT'' [] ''all'']\<rparr>)"
    by (simp add: ready_def)
  have "sqlite3 (ready ([''apples''], [])) \<and> configValid dbConfig \<and>
        openDatabase grocery (frame_of dbConfig) = Inr ([], []) \<and>
        attachAll grocery (map (\<lambda>kf. fn_name (snd kf)) (userFunctions (ready ([''apples''], []))))
          ([], []) = Inr ([], [])"
    by (simp add: ready_def configValid_def dbConfig_def emptyConfig_def truthy_def
        openDatabase_def frame_of_def grocery_def grocery_open_def)
  from inst [THEN conjunct2, rule_format, OF this]
  have "processorSteps grocery
       [Arrives (DestroyMessage ''k1''), Arrives (QueryMessage ''k2'' ''SELECT'' [] ''all''),
        ModuleSettles (Inr ()), Arrives (ConfigMessage dbConfig)]
       (ready ([''apples''], [])) =
     flushQueue grocery
       ((ready ([''apples''], []))\<lparr>config := dbConfig, db := Some ([], []),
          closed := [([''apples''], [])], emitted := [SuccessMessage ''k1''],
          queuedMessages := [QueryMessage ''k2'' ''SELECT'' [] ''all'']\<rparr>)"
    by (simp add: ready_def)
  also have "\<dots> =
     Some ((ready ([''apples''], []))\<lparr>config := dbConfig, db := Some ([], []),
        closed := [([''apples''], [])],
        emitted := [SuccessMessage ''k1'', DataMessage ''k2'' (Arr []) [''name'']]\<rparr>)"
    by (simp add: flushQueue_def ready_def
        run_FlushQueue_Cons [where m = "QueryMessage ''k2'' ''SELECT'' [] ''all''"] run_FlushQueue_Nil
        run_PostMessage_ready exec_def grocery_def grocery_exec_def relay_def emitMessage_def
        shapeRows_def)
  finally show ?thesis using first by simp
qed

text \<open>
  \<^bold>\<open>C4, as stated, fails.\<close> The processor has no destroyed state: a config message that
  arrives after the destroy message opens a connection again, and the query that arrived
  in between is dispatched and answered.
\<close>

theorem dispatch_resumes_after_destroy:
  "map_option emitted
     (postMessages grocery
        [DestroyMessage ''k1'', QueryMessage ''k2'' ''SELECT'' [] ''all'', ConfigMessage dbConfig]
        (ready ([''apples''], []))) =
   Some [SuccessMessage ''k1'', DataMessage ''k2'' (Arr []) [''name'']]"
  by (simp add: postMessage_def run_PostMessage_ready run_PostMessage_queued run_PostMessage_Config
      destroy_def closeDb_def emitMessage_def ready_def run_Init configValid_def truthy_def
      dbConfig_def emptyConfig_def run_InitConnect openDatabase_def frame_of_def flags_of_def
      grocery_def grocery_open_def
      run_FlushQueue_Cons [where m = "QueryMessage ''k2'' ''SELECT'' [] ''all''"] run_FlushQueue_Nil
      exec_def grocery_exec_def relay_def shapeRows_def)

section \<open>User functions\<close>

text \<open>
  \<^bold>\<open>C6.\<close> On a processor with a connection and a listener, a function message whose name
  is in the registry is answered by an error message under its key, and nothing else
  changes: the registry and the connection, with the function attached to it, are as
  before. When a config message re-creates the connection (the module is loaded, the
  config is valid, the database opens, and the engine attaches every registered name to
  the new connection), the flush of the queue starts from a processor that holds the new
  connection with all registered functions attached, in the order of their registration,
  and whose registry is the one from before.
\<close>

theorem duplicate_rejected_and_registry_reattached:
  "(db s = Some d \<and> onmessage s \<and> map_of (userFunctions s) n \<noteq> None \<longrightarrow>
      postMessage eng (FunctionMessage k n) s =
        Some (s\<lparr>emitted := emitted s @ [ErrorMessage (Some k) (duplicate_error n)]\<rparr>)) \<and>
   (sqlite3 s \<and> configValid c \<and> openDatabase eng (frame_of c) = Inr d0 \<and>
    attachAll eng (map (\<lambda>kf. fn_name (snd kf)) (userFunctions s)) d0 = Inr d1 \<longrightarrow>
      postMessage eng (ConfigMessage c) s =
        flushQueue eng ((closeDb s)\<lparr>config := c, db := Some d1\<rparr>) \<and>
      userFunctions ((closeDb s)\<lparr>config := c, db := Some d1\<rparr>) = userFunctions s)"
proof (intro conjI impI)
  assume "db s = Some d \<and> onmessage s \<and> map_of (userFunctions s) n \<noteq> None"
  then show "postMessage eng (FunctionMessage k n) s =
        Some (s\<lparr>emitted := emitted s @ [ErrorMessage (Some k) (duplicate_error n)]\<rparr>)"
    by (simp add: postMessage_def run_PostMessage_ready createCallbackFunction_def emitMessage_def)
next
  assume h: "sqlite3 s \<and> configValid c \<and> openDatabase eng (frame_of c) = Inr d0 \<and>
    attachAll eng (map (\<lambda>kf. fn_name (snd kf)) (userFunctions s)) d0 = Inr d1"
  have "forEach_initUserFunction eng (userFunctions s) ((closeDb (s\<lparr>config := c\<rparr>))\<lparr>db := Some d0\<rparr>)
          = (None, (closeDb (s\<lparr>config := c\<rparr>))\<lparr>db := Some d1\<rparr>)"
    using h forEach_attachAll [of eng "userFunctions s" d0 d1 "closeDb (s\<lparr>config := c\<rparr>)"] by simp
  moreover have "(closeDb (s\<lparr>config := c\<rparr>))\<lparr>db := Some d1\<rparr> = (closeDb s)\<lparr>config := c, db := Some d1\<rparr>"
    by (simp add: closeDb_def split: option.splits)
  moreover have "userFunctions (closeDb (s\<lparr>config := c\<rparr>)) = userFunctions s"
    by (simp add: closeDb_def split: option.splits)
  ultimately show "postMessage eng (ConfigMessage c) s =
        flushQueue eng ((closeDb s)\<lparr>config := c, db := Some d1\<rparr>)"
    using h by (simp add: postMessage_def flushQueue_def run_PostMessage_Config run_Init run_InitConnect)
next
  show "userFunctions ((closeDb s)\<lparr>config := c, db := Some d1\<rparr>) = userFunctions s"
    by (simp add: closeDb_def split: option.splits)
qed

theorem duplicate_rejected_and_registry_reattached_witness:
  "postMessage grocery (FunctionMessage ''k1'' ''notify'') (ready ([''apples''], [])) =
     Some registered \<and>
   postMessage grocery (FunctionMessage ''k2'' ''notify'') registered =
     Some (registered\<lparr>emitted :=
        [SuccessMessage ''k1'', ErrorMessage (Some ''k2'') (duplicate_error ''notify'')]\<rparr>) \<and>
   map_option emitted
       (postMessage grocery (QueryMessage ''k3'' ''NOTIFY'' [Str ''x''] ''run'')
          (registered\<lparr>emitted :=
             [SuccessMessage ''k1'', ErrorMessage (Some ''k2'') (duplicate_error ''notify'')]\<rparr>)) =
     Some [SuccessMessage ''k1'', ErrorMessage (Some ''k2'') (duplicate_error ''notify''),
           CallbackMessage ''notify'' [Str ''x''], DataMessage ''k3'' (Arr []) [''notify'']] \<and>
   postMessage grocery (ConfigMessage dbConfig) registered =
     Some (registered\<lparr>config := dbConfig, db := Some ([], [''notify'']),
             closed := [([''apples''], [''notify''])]\<rparr>)"
proof -
  note inst = duplicate_rejected_and_registry_reattached
    [where s = registered and eng = grocery and d = "([''apples''], [''notify''])"
       and n = "''notify''" and k = "''k2''" and c = dbConfig and ?d0.0 = "([], [])"
       and ?d1.0 = "([], [''notify''])"]
  have first: "postMessage grocery (FunctionMessage ''k1'' ''notify'') (ready ([''apples''], [])) =
     Some registered"
    by (simp add: postMessage_def run_PostMessage_ready ready_def createCallbackFunction_def
        initUserFunction_def grocery_def emitMessage_def registered_def)
  have "db registered = Some ([''apples''], [''notify'']) \<and> onmessage registered \<and>
        map_of (userFunctions registered) ''notify'' \<noteq> None"
    by (simp add: registered_def ready_def)
  from inst [THEN conjunct1, rule_format, OF this]
  have second: "postMessage grocery (FunctionMessage ''k2'' ''notify'') registered =
     Some (registered\<lparr>emitted :=
        [SuccessMessage ''k1'', ErrorMessage (Some ''k2'') (duplicate_error ''notify'')]\<rparr>)"
    by (simp add: registered_def)
  have "sqlite3 registered \<and> configValid dbConfig \<and>
        openDatabase grocery (frame_of dbConfig) = Inr ([], []) \<and>
        attachAll grocery (map (\<lambda>kf. fn_name (snd kf)) (userFunctions registered)) ([], []) =
          Inr ([], [''notify''])"
    by (simp add: registered_def ready_def configValid_def dbConfig_def emptyConfig_def truthy_def
        openDatabase_def frame_of_def grocery_def grocery_open_def)
  from inst [THEN conjunct2, rule_format, OF this]
  have "postMessage grocery (ConfigMessage dbConfig) registered =
          flushQueue grocery ((closeDb registered)\<lparr>config := dbConfig, db := Some ([], [''notify''])\<rparr>)"
    by (rule conjunct1)
  then have third: "postMessage grocery (ConfigMessage dbConfig) registered =
     Some (registered\<lparr>config := dbConfig, db := Some ([], [''notify'']),
             closed := [([''apples''], [''notify''])]\<rparr>)"
    by (simp add: flushQueue_def run_FlushQueue_Nil closeDb_def registered_def ready_def)
  have callable: "map_option emitted
       (postMessage grocery (QueryMessage ''k3'' ''NOTIFY'' [Str ''x''] ''run'')
          (registered\<lparr>emitted :=
             [SuccessMessage ''k1'', ErrorMessage (Some ''k2'') (duplicate_error ''notify'')]\<rparr>)) =
     Some [SuccessMessage ''k1'', ErrorMessage (Some ''k2'') (duplicate_error ''notify''),
           CallbackMessage ''notify'' [Str ''x''], DataMessage ''k3'' (Arr []) [''notify'']]"
    by (simp add: postMessage_def run_PostMessage_ready registered_def ready_def exec_def
        grocery_def grocery_exec_def relay_def emitMessage_def shapeRows_def)
  from first second callable third show ?thesis by simp
qed

section \<open>Failure of the connection setup\<close>

lemma failed_connect:
  assumes "onmessage s" "openDatabase eng fr = Inl e"
  shows "\<exists>s'. run eng (InitConnect fr) s = Some s' \<and> db s' = None \<and>
               emitted s' = emitted s @ [ErrorMessage None e] \<and>
               closed s' = closed s @ (case db s of None \<Rightarrow> [] | Some d \<Rightarrow> [d])"
  using assms
  by (simp add: run_InitConnect initCatch_def closeDb_def emitMessage_def split: option.splits)

text \<open>
  \<^bold>\<open>C7.\<close> The setup of the connection fails when the module cannot be loaded or when the
  database cannot be opened, whether in an activation of \<^verbatim>\<open>init\<close> that waited for the module or
  in one started by a config message with the module loaded. In each case the processor
  (with a listener) ends without a connection, the connection it held, if any, has been
  closed, and it has emitted one message: the error, under the key \<^verbatim>\<open>null\<close>. The client
  throws the error of such a message and changes nothing: no pending request is settled.
\<close>

theorem setup_failure_is_an_unrouted_error:
  "(onmessage s \<and> suspended s = fr # frs \<longrightarrow>
      (\<exists>s'. resumeInit eng (Inl e) s = Some s' \<and> db s' = None \<and>
             emitted s' = emitted s @ [ErrorMessage None e] \<and>
             closed s' = closed s @ (case db s of None \<Rightarrow> [] | Some d \<Rightarrow> [d]))) \<and>
   (onmessage s \<and> suspended s = fr # frs \<and> openDatabase eng fr = Inl e \<longrightarrow>
      (\<exists>s'. resumeInit eng (Inr ()) s = Some s' \<and> db s' = None \<and>
             emitted s' = emitted s @ [ErrorMessage None e] \<and>
             closed s' = closed s @ (case db s of None \<Rightarrow> [] | Some d \<Rightarrow> [d]))) \<and>
   (onmessage s \<and> sqlite3 s \<and> configValid c \<and> openDatabase eng (frame_of c) = Inl e \<longrightarrow>
      (\<exists>s'. postMessage eng (ConfigMessage c) s = Some s' \<and> db s' = None \<and>
             emitted s' = emitted s @ [ErrorMessage None e] \<and>
             closed s' = closed s @ (case db s of None \<Rightarrow> [] | Some d \<Rightarrow> [d]))) \<and>
   processMessageEvent (ErrorMessage None e) cl = (Some e, cl)"
proof (intro conjI impI)
  assume "onmessage s \<and> suspended s = fr # frs"
  then show "\<exists>s'. resumeInit eng (Inl e) s = Some s' \<and> db s' = None \<and>
             emitted s' = emitted s @ [ErrorMessage None e] \<and>
             closed s' = closed s @ (case db s of None \<Rightarrow> [] | Some d \<Rightarrow> [d])"
    by (simp add: resumeInit_def run_InitResume_Inl initCatch_def closeDb_def emitMessage_def
        split: option.splits)
next
  assume h: "onmessage s \<and> suspended s = fr # frs \<and> openDatabase eng fr = Inl e"
  then have "onmessage (s\<lparr>suspended := frs, sqlite3 := True\<rparr>)" by simp
  from failed_connect [OF this, of eng fr e] h
  show "\<exists>s'. resumeInit eng (Inr ()) s = Some s' \<and> db s' = None \<and>
             emitted s' = emitted s @ [ErrorMessage None e] \<and>
             closed s' = closed s @ (case db s of None \<Rightarrow> [] | Some d \<Rightarrow> [d])"
    by (simp add: resumeInit_def run_InitResume_Inr)
next
  assume h: "onmessage s \<and> sqlite3 s \<and> configValid c \<and> openDatabase eng (frame_of c) = Inl e"
  then have "onmessage (s\<lparr>config := c\<rparr>)" by simp
  from failed_connect [OF this, of eng "frame_of c" e] h
  show "\<exists>s'. postMessage eng (ConfigMessage c) s = Some s' \<and> db s' = None \<and>
             emitted s' = emitted s @ [ErrorMessage None e] \<and>
             closed s' = closed s @ (case db s of None \<Rightarrow> [] | Some d \<Rightarrow> [d])"
    by (simp add: postMessage_def run_PostMessage_Config run_Init)
next
  show "processMessageEvent (ErrorMessage None e) cl = (Some e, cl)"
    by (simp add: route_def)
qed

theorem setup_failure_is_an_unrouted_error_witness:
  "postMessage grocery (ConfigMessage lockedConfig) (new_SQLocalProcessor\<lparr>onmessage := True\<rparr>) =
     Some loading \<and>
   map_option (\<lambda>s'. (db s', emitted s', closed s'))
       (resumeInit grocery (Inl (Error ''out of memory'')) loading) =
     Some (None, [ErrorMessage None (Error ''out of memory'')], []) \<and>
   map_option (\<lambda>s'. (db s', emitted s', closed s')) (resumeInit grocery (Inr ()) loading) =
     Some (None, [ErrorMessage None (Error ''unable to open database file'')], []) \<and>
   map_option (\<lambda>s'. (db s', emitted s', closed s'))
       (postMessage grocery (ConfigMessage lockedConfig) (ready ([''apples''], []))) =
     Some (None, [ErrorMessage None (Error ''unable to open database file'')],
           [([''apples''], [])]) \<and>
   processMessageEvent (ErrorMessage None (Error ''unable to open database file''))
       ((clientOf (Worker [] True))\<lparr>queriesInProgress := [(''k1'', AwaitSql)]\<rparr>) =
     (Some (Error ''unable to open database file''),
      (clientOf (Worker [] True))\<lparr>queriesInProgress := [(''k1'', AwaitSql)]\<rparr>)"
proof -
  have reach: "postMessage grocery (ConfigMessage lockedConfig)
      (new_SQLocalProcessor\<lparr>onmessage := True\<rparr>) = Some loading"
    by (simp add: postMessage_def run_PostMessage_Config run_Init new_SQLocalProcessor_def
        configValid_def lockedConfig_def emptyConfig_def truthy_def loading_def)
  have opn: "openDatabase grocery (frame_of lockedConfig) = Inl (Error ''unable to open database file'')"
    by (simp add: openDatabase_def frame_of_def lockedConfig_def emptyConfig_def truthy_def
        grocery_def grocery_open_def)
  have l: "onmessage loading \<and> suspended loading = frame_of lockedConfig # []"
    by (simp add: loading_def)
  from setup_failure_is_an_unrouted_error
    [where s = loading and eng = grocery and e = "Error ''out of memory''"
       and fr = "frame_of lockedConfig" and frs = "[]", THEN conjunct1, rule_format, OF l]
  have a: "map_option (\<lambda>s'. (db s', emitted s', closed s'))
       (resumeInit grocery (Inl (Error ''out of memory'')) loading) =
     Some (None, [ErrorMessage None (Error ''out of memory'')], [])"
    by (auto simp: loading_def)
  from l opn have
    "onmessage loading \<and> suspended loading = frame_of lockedConfig # [] \<and>
     openDatabase grocery (frame_of lockedConfig) = Inl (Error ''unable to open database file'')"
    by simp
  from setup_failure_is_an_unrouted_error
    [where s = loading and eng = grocery and e = "Error ''unable to open database file''"
       and fr = "frame_of lockedConfig" and frs = "[]",
     THEN conjunct2, THEN conjunct1, rule_format, OF this]
  have b: "map_option (\<lambda>s'. (db s', emitted s', closed s')) (resumeInit grocery (Inr ()) loading) =
     Some (None, [ErrorMessage None (Error ''unable to open database file'')], [])"
    by (auto simp: loading_def)
  have "onmessage (ready ([''apples''], [])) \<and> sqlite3 (ready ([''apples''], [])) \<and>
        configValid lockedConfig \<and>
        openDatabase grocery (frame_of lockedConfig) = Inl (Error ''unable to open database file'')"
    using opn by (simp add: ready_def configValid_def lockedConfig_def emptyConfig_def truthy_def)
  from setup_failure_is_an_unrouted_error
    [where s = "ready ([''apples''], [])" and eng = grocery
       and e = "Error ''unable to open database file''" and c = lockedConfig,
     THEN conjunct2, THEN conjunct2, THEN conjunct1, rule_format, OF this]
  have c: "map_option (\<lambda>s'. (db s', emitted s', closed s'))
       (postMessage grocery (ConfigMessage lockedConfig) (ready ([''apples''], []))) =
     Some (None, [ErrorMessage None (Error ''unable to open database file'')],
           [([''apples''], [])])"
    by (auto simp: ready_def)
  note d = setup_failure_is_an_unrouted_error
    [where e = "Error ''unable to open database file''"
       and cl = "(clientOf (Worker [] True))\<lparr>queriesInProgress := [(''k1'', AwaitSql)]\<rparr>",
     THEN conjunct2, THEN conjunct2, THEN conjunct2]
  from reach a b c d show ?thesis by simp
qed

section \<open>The client\<close>

text \<open>
  \<^bold>\<open>C10.\<close> A query with the method \<open>get\<close> whose execution succeeds with no rows is answered
  by a data message whose rows are \<open>rows[0]\<close> of the empty result, that is undefined. When
  that message reaches a client that listens and holds the request as pending for
  \<^verbatim>\<open>exec\<close>, the pending entry is removed and \<^verbatim>\<open>exec\<close> returns the undefined value as its
  rows, next to the column names; it does not return the empty array it starts from.
\<close>

theorem get_without_rows_returns_undefined:
  assumes "db s = Some d" and "onmessage s"
    and "db_exec eng q ps d = (Inr ([], cols), cs, d')"
    and "listening c" and "k \<noteq> []" and "map_of (queriesInProgress c) k = Some AwaitExec"
    and "jobs c = []"
  shows "postMessage eng (QueryMessage k q ps ''get'') s =
           Some (s\<lparr>db := Some d',
                   emitted := emitted s @ map (\<lambda>c. CallbackMessage (fst c) (snd c)) cs @
                              [DataMessage k Undefined cols]\<rparr>) \<and>
         onMessageEvent (DataMessage k Undefined cols) c =
           (None, c\<lparr>queriesInProgress := AList.delete k (queriesInProgress c),
                    completed := completed c @ [(k, ReturnedData Undefined cols)]\<rparr>) \<and>
         ReturnedData Undefined cols \<noteq> ReturnedData (Arr []) cols"
  using assms
  by (simp add: postMessage_def run_PostMessage_ready exec_Query shapeRows_def
      onMessageEvent_def route_def drainJobs_def dataOf_def complete_def)

theorem get_without_rows_returns_undefined_witness:
  "postMessage grocery (QueryMessage ''k1'' ''SELECT'' [] ''get'') (ready ([], [])) =
     Some ((ready ([], []))\<lparr>emitted := [DataMessage ''k1'' Undefined [''name'']]\<rparr>) \<and>
   onMessageEvent (DataMessage ''k1'' Undefined [''name''])
       ((clientOf (Worker [QueryMessage ''k1'' ''SELECT'' [] ''get''] True))
          \<lparr>queriesInProgress := [(''k1'', AwaitExec)]\<rparr>) =
     (None, (clientOf (Worker [QueryMessage ''k1'' ''SELECT'' [] ''get''] True))
          \<lparr>completed := [(''k1'', ReturnedData Undefined [''name''])]\<rparr>)"
  using get_without_rows_returns_undefined
    [where s = "ready ([], [])" and d = "([], [])" and eng = grocery and q = "''SELECT''"
       and ps = "[]" and cols = "[''name'']" and cs = "[]" and d' = "([], [])" and k = "''k1''"
       and c = "(clientOf (Worker [QueryMessage ''k1'' ''SELECT'' [] ''get''] True))
          \<lparr>queriesInProgress := [(''k1'', AwaitExec)]\<rparr>"]
  by (simp add: ready_def grocery_def grocery_exec_def clientOf_def listening_def AList.delete_eq)

text \<open>
  \<^bold>\<open>C3.\<close> A client on the local storage runs its processor in-process. Once the connection
  is open, \<^verbatim>\<open>sql\<close> posts the query, the processor executes it within the call and hands the
  data message to the listener of the client before \<^verbatim>\<open>createQuery\<close> has stored the pending
  entry: the message finds no entry and is dropped, the entry is stored after it, and
  nothing settles it. The states are those of the run: the constructor, the load of the
  module (which emits nothing), the call.
\<close>

theorem in_process_answer_precedes_pending_entry:
  "new_SQLocal grocery (Inr localConfig) =
     Some (clientOf (InProcess (localProcessor\<lparr>sqlite3 := False, db := None,
        suspended := [frame_of localConfig]\<rparr>))) \<and>
   resumeInit grocery (Inr ())
       (localProcessor\<lparr>sqlite3 := False, db := None, suspended := [frame_of localConfig]\<rparr>) =
     Some localProcessor \<and>
   SQLocal_sql grocery ''k1'' [''SELECT''] [] (clientOf (InProcess localProcessor)) =
     Some (Inr (),
       (clientOf (InProcess (localProcessor\<lparr>emitted := [DataMessage ''k1'' (Arr []) [''name'']]\<rparr>)))
         \<lparr>queriesInProgress := [(''k1'', AwaitSql)]\<rparr>)"
proof (intro conjI)
  show "new_SQLocal grocery (Inr localConfig) =
     Some (clientOf (InProcess (localProcessor\<lparr>sqlite3 := False, db := None,
        suspended := [frame_of localConfig]\<rparr>)))"
    by (simp add: new_SQLocal_def localConfig_def emptyConfig_def truthy_def
        processor_postMessage_def postMessage_def run_PostMessage_Config run_Init
        configValid_def new_SQLocalProcessor_def clientOf_def localProcessor_def)
next
  show "resumeInit grocery (Inr ())
       (localProcessor\<lparr>sqlite3 := False, db := None, suspended := [frame_of localConfig]\<rparr>) =
     Some localProcessor"
    by (simp add: resumeInit_def run_InitResume_Inr run_InitConnect openDatabase_def frame_of_def
        localConfig_def emptyConfig_def truthy_def grocery_def grocery_open_def closeDb_def
        localProcessor_def run_FlushQueue_Nil)
next
  show "SQLocal_sql grocery ''k1'' [''SELECT''] [] (clientOf (InProcess localProcessor)) =
     Some (Inr (),
       (clientOf (InProcess (localProcessor\<lparr>emitted := [DataMessage ''k1'' (Arr []) [''name'']]\<rparr>)))
         \<lparr>queriesInProgress := [(''k1'', AwaitSql)]\<rparr>)"
    by (simp add: SQLocal_sql_def convertSqlTemplate_def createQuery_def clientOf_def
        processor_postMessage_def postMessage_def run_PostMessage_ready localProcessor_def
        exec_def grocery_def grocery_exec_def relay_def emitMessage_def shapeRows_def route_def)
qed

lemma update_append_absent:
  "map_of al k = None \<Longrightarrow> AList.update k v al = al @ [(k, v)]"
  by (induction al) (auto split: if_splits)

lemma map_of_append_absent:
  "map_of al k = None \<Longrightarrow> map_of (al @ [(k, v)]) k = Some v"
  by (simp add: map_add_def)

lemma delete_append_absent:
  "map_of al k = None \<Longrightarrow> AList.delete k (al @ [(k, v)]) = al"
  by (induction al) (auto simp: AList.delete_eq split: if_splits)

text \<open>With a worker the answer comes in a later message event: the entry stored by
  \<^verbatim>\<open>createQuery\<close> is there, the answer settles the method that awaits it and removes the
  entry, and a second message under the same key settles nothing.\<close>

lemma worker_request_settled_once:
  assumes "processor c = Worker posted True" and "\<not> isDestroyed c" and "k \<noteq> []"
    and "jobs c = []" and "map_of (queriesInProgress c) k = None"
  shows "SQLocal_exec eng k q ps method c =
           Some (Inr (), c\<lparr>processor := Worker (posted @ [QueryMessage k q ps method]) True,
                          queriesInProgress := queriesInProgress c @ [(k, AwaitExec)]\<rparr>)"
    and "onMessageEvent (DataMessage k rows cols)
           (c\<lparr>processor := Worker (posted @ [QueryMessage k q ps method]) True,
              queriesInProgress := queriesInProgress c @ [(k, AwaitExec)]\<rparr>) =
           (None, c\<lparr>processor := Worker (posted @ [QueryMessage k q ps method]) True,
                    completed := completed c @ [(k, ReturnedData rows cols)]\<rparr>)"
    and "onMessageEvent (DataMessage k rows' cols')
           (c\<lparr>processor := Worker (posted @ [QueryMessage k q ps method]) True,
              completed := completed c @ [(k, ReturnedData rows cols)]\<rparr>) =
           (None, c\<lparr>processor := Worker (posted @ [QueryMessage k q ps method]) True,
                    completed := completed c @ [(k, ReturnedData rows cols)]\<rparr>)"
proof -
  have upd: "AList.update k AwaitExec (queriesInProgress c) = queriesInProgress c @ [(k, AwaitExec)]"
    using assms(5) by (induction "queriesInProgress c") (auto simp: update_append_absent)
  show "SQLocal_exec eng k q ps method c =
           Some (Inr (), c\<lparr>processor := Worker (posted @ [QueryMessage k q ps method]) True,
                          queriesInProgress := queriesInProgress c @ [(k, AwaitExec)]\<rparr>)"
    using assms upd by (simp add: SQLocal_exec_def createQuery_def processor_postMessage_def)
  have del: "AList.delete k (queriesInProgress c @ [(k, AwaitExec)]) = queriesInProgress c"
    using assms(5) by (simp add: delete_append_absent)
  show "onMessageEvent (DataMessage k rows cols)
           (c\<lparr>processor := Worker (posted @ [QueryMessage k q ps method]) True,
              queriesInProgress := queriesInProgress c @ [(k, AwaitExec)]\<rparr>) =
           (None, c\<lparr>processor := Worker (posted @ [QueryMessage k q ps method]) True,
                    completed := completed c @ [(k, ReturnedData rows cols)]\<rparr>)"
    using assms del map_of_append_absent [of "queriesInProgress c" k AwaitExec]
    by (simp add: onMessageEvent_def listening_def route_def drainJobs_def dataOf_def complete_def
        del: map_of_append)
  show "onMessageEvent (DataMessage k rows' cols')
           (c\<lparr>processor := Worker (posted @ [QueryMessage k q ps method]) True,
              completed := completed c @ [(k, ReturnedData rows cols)]\<rparr>) =
           (None, c\<lparr>processor := Worker (posted @ [QueryMessage k q ps method]) True,
                    completed := completed c @ [(k, ReturnedData rows cols)]\<rparr>)"
    using assms
    by (simp add: onMessageEvent_def listening_def route_def drainJobs_def)
qed

section \<open>After destroy\<close>

text \<open>
  \<^bold>\<open>C5.\<close> Once \<^verbatim>\<open>destroy\<close> has gone on after its \<^verbatim>\<open>await\<close> (the acknowledgement has resolved
  its promise), every call of \<^verbatim>\<open>exec\<close>, \<^verbatim>\<open>sql\<close>, \<^verbatim>\<open>transaction\<close>, \<^verbatim>\<open>createCallbackFunction\<close> or
  \<^verbatim>\<open>destroy\<close> throws the error of the destroyed client, whatever key \<^verbatim>\<open>nanoid\<close> would have
  returned, and leaves the client as it is: no message is posted to the processor and
  no pending entry is stored.
\<close>

theorem calls_after_destroy_fail_locally:
  "call eng k a (continue kd AwaitDestroy (Resolved m) c) =
     Some (Inl destroyed_error, continue kd AwaitDestroy (Resolved m) c)"
  by (cases a)
     (simp_all add: SQLocal_exec_def SQLocal_sql_def SQLocal_transaction_def
        SQLocal_createCallbackFunction_def SQLocal_destroy_def createQuery_def
        afterDestroy_def complete_def)

theorem calls_after_destroy_fail_locally_witness:
  "snd (onMessageEvent (SuccessMessage ''kd'') closing) = closedClient \<and>
   call grocery ''k2'' (CallSql [''SELECT''] []) closedClient = Some (Inl destroyed_error, closedClient) \<and>
   call grocery ''k2'' CallDestroy closedClient = Some (Inl destroyed_error, closedClient)"
proof -
  have e: "snd (onMessageEvent (SuccessMessage ''kd'') closing) = closedClient"
    by (simp add: onMessageEvent_def listening_def closing_def clientOf_def route_def
        drainJobs_def afterDestroy_def complete_def closedClient_def AList.delete_eq)
  have c: "closedClient =
      continue ''kd'' AwaitDestroy (Resolved (SuccessMessage ''kd''))
        (closing\<lparr>queriesInProgress := [(''k1'', AwaitSql)]\<rparr>)"
    by (simp add: closing_def clientOf_def afterDestroy_def complete_def closedClient_def)
  from calls_after_destroy_fail_locally
    [of grocery "''k2''" "CallSql [''SELECT''] []" "''kd''" "SuccessMessage ''kd''"
       "closing\<lparr>queriesInProgress := [(''k1'', AwaitSql)]\<rparr>"]
    calls_after_destroy_fail_locally
    [of grocery "''k2''" CallDestroy "''kd''" "SuccessMessage ''kd''"
       "closing\<lparr>queriesInProgress := [(''k1'', AwaitSql)]\<rparr>"]
    e c
  show ?thesis by simp
qed

lemma drainJobs_empty: "jobs c = [] \<Longrightarrow> drainJobs c = c"
  by (simp add: drainJobs_def)

lemma call_inert: "isDestroyed c \<Longrightarrow> call eng k a c = Some (Inl destroyed_error, c)"
  by (cases a)
     (simp_all add: SQLocal_exec_def SQLocal_sql_def SQLocal_transaction_def
        SQLocal_createCallbackFunction_def SQLocal_destroy_def createQuery_def)

lemma processMessageEvent_inert:
  "queriesInProgress c = [] \<Longrightarrow>
   queriesInProgress (snd (processMessageEvent m c)) = [] \<and>
   jobs (snd (processMessageEvent m c)) = jobs c \<and>
   completed (snd (processMessageEvent m c)) = completed c \<and>
   isDestroyed (snd (processMessageEvent m c)) = isDestroyed c"
  by (cases m) (auto simp: route_def split: option.splits)

lemma clientStep_inert:
  assumes "inert c"
  shows "\<exists>c'. clientStep eng ev c = Some c' \<and> inert c' \<and> completed c' = completed c"
proof (cases ev)
  case (Called k a)
  with assms show ?thesis by (simp add: inert_def call_inert drainJobs_empty)
next
  case (Received m)
  from assms have q: "queriesInProgress c = []" and j: "jobs c = []" and d: "isDestroyed c"
    by (simp_all add: inert_def)
  note p = processMessageEvent_inert [OF q, of m]
  have "jobs (snd (processMessageEvent m c)) = []" using p j by simp
  then have "drainJobs (snd (processMessageEvent m c)) = snd (processMessageEvent m c)"
    by (rule drainJobs_empty)
  with Received p assms show ?thesis
    by (auto simp: onMessageEvent_def inert_def split: prod.splits)
qed

lemma clientSteps_inert:
  "inert c \<Longrightarrow> \<exists>c'. clientSteps eng evs c = Some c' \<and> inert c' \<and> completed c' = completed c"
proof (induction evs arbitrary: c)
  case Nil
  then show ?case by simp
next
  case (Cons ev evs)
  from clientStep_inert [OF Cons.prems, of eng ev] obtain c1 where
    s: "clientStep eng ev c = Some c1" and i: "inert c1" and e: "completed c1 = completed c"
    by blast
  from Cons.IH [OF i] obtain c2 where
    "clientSteps eng evs c1 = Some c2" "inert c2" "completed c2 = completed c1"
    by blast
  with s e show ?case by simp
qed

text \<open>
  \<^bold>\<open>C9.\<close> The acknowledgement of the destroy request reaches a client that listens and
  holds that request as pending for \<^verbatim>\<open>destroy\<close>. After the event the map of pending
  requests is empty, no reaction is left to run, and the only method that has completed
  in the event is \<^verbatim>\<open>destroy\<close> itself: the other pending requests were removed without a
  call of their callbacks. Whatever calls and message events follow, no method completes
  any more.
\<close>

theorem destroy_abandons_pending_requests:
  assumes "listening c" and "kd \<noteq> []" and "map_of (queriesInProgress c) kd = Some AwaitDestroy"
    and "jobs c = []"
  shows "queriesInProgress (snd (onMessageEvent (SuccessMessage kd) c)) = [] \<and>
         jobs (snd (onMessageEvent (SuccessMessage kd) c)) = [] \<and>
         isDestroyed (snd (onMessageEvent (SuccessMessage kd) c)) \<and>
         completed (snd (onMessageEvent (SuccessMessage kd) c)) = completed c @ [(kd, ReturnedVoid)] \<and>
         (\<forall>evs. \<exists>c'. clientSteps eng evs (snd (onMessageEvent (SuccessMessage kd) c)) = Some c' \<and>
                     completed c' = completed c @ [(kd, ReturnedVoid)] \<and>
                     queriesInProgress c' = [])"
proof -
  let ?c1 = "snd (onMessageEvent (SuccessMessage kd) c)"
  have c1: "?c1 = complete kd ReturnedVoid
                    (afterDestroy (c\<lparr>queriesInProgress := AList.delete kd (queriesInProgress c),
                                     jobs := []\<rparr>))"
    using assms by (simp add: onMessageEvent_def route_def drainJobs_def)
  then have f: "queriesInProgress ?c1 = []" "jobs ?c1 = []" "isDestroyed ?c1"
    "completed ?c1 = completed c @ [(kd, ReturnedVoid)]"
    using assms by (simp_all add: complete_def afterDestroy_def)
  then have "inert ?c1" by (simp add: inert_def)
  then have "\<forall>evs. \<exists>c'. clientSteps eng evs ?c1 = Some c' \<and>
                     completed c' = completed c @ [(kd, ReturnedVoid)] \<and>
                     queriesInProgress c' = []"
    using clientSteps_inert [of ?c1 eng] f(4) by (metis inert_def)
  with f show ?thesis by simp
qed

theorem destroy_abandons_pending_requests_witness:
  "map_of (queriesInProgress closing) ''k1'' = Some AwaitSql \<and>
   snd (onMessageEvent (SuccessMessage ''kd'') closing) = closedClient \<and>
   clientSteps grocery
       [Received (DataMessage ''k1'' (Arr [Arr [Str ''apples'']]) [''name'']),
        Called ''k2'' (CallSql [''SELECT''] [])]
       closedClient = Some closedClient"
proof -
  have h: "listening closing" "''kd'' \<noteq> []"
    "map_of (queriesInProgress closing) ''kd'' = Some AwaitDestroy" "jobs closing = []"
    by (simp_all add: closing_def clientOf_def listening_def)
  have e: "snd (onMessageEvent (SuccessMessage ''kd'') closing) = closedClient"
    by (simp add: onMessageEvent_def listening_def closing_def clientOf_def route_def
        drainJobs_def afterDestroy_def complete_def closedClient_def AList.delete_eq)
  from destroy_abandons_pending_requests [OF h, of grocery]
  have "completed (snd (onMessageEvent (SuccessMessage ''kd'') closing)) =
          completed closing @ [(''kd'', ReturnedVoid)]"
    by simp
  moreover have "clientSteps grocery
       [Received (DataMessage ''k1'' (Arr [Arr [Str ''apples'']]) [''name'']),
        Called ''k2'' (CallSql [''SELECT''] [])]
       closedClient = Some closedClient"
    by (simp add: closedClient_def clientOf_def onMessageEvent_def listening_def
        SQLocal_sql_def createQuery_def drainJobs_def)
  moreover have "map_of (queriesInProgress closing) ''k1'' = Some AwaitSql"
    by (simp add: closing_def clientOf_def)
  ultimately show ?thesis using e by simp
qed

end
